theory Spec2Isabelle
  imports Complex_Main "HOL-Library.Word"
begin

unbundle bit_operations_syntax

section \<open>Data model\<close>

type_synonym uint8_t = "8 word"
type_synonym uint16_t = "16 word"
type_synonym uint32_t = "32 word"
type_synonym uint64_t = "64 word"

text \<open>
  The register names the driver uses. Their 16-bit numeric values are declared in the
  header \<^verbatim>\<open>VL53L1X.h\<close>, which is not among the sources; a register is
  therefore identified by its name, and the bytes of a multi-byte register by the name
  and an offset.
\<close>

datatype regAddr =
    SOFT_RESET | I2C_SLAVE__DEVICE_ADDRESS | IDENTIFICATION__MODEL_ID
  | FIRMWARE__SYSTEM_STATUS | PAD_I2C_HV__EXTSUP_CONFIG
  | OSC_MEASURED__FAST_OSC__FREQUENCY | RESULT__OSC_CALIBRATE_VAL
  | DSS_CONFIG__TARGET_TOTAL_RATE_MCPS | GPIO__TIO_HV_STATUS
  | SIGMA_ESTIMATOR__EFFECTIVE_PULSE_WIDTH_NS
  | SIGMA_ESTIMATOR__EFFECTIVE_AMBIENT_WIDTH_NS
  | ALGO__CROSSTALK_COMPENSATION_VALID_HEIGHT_MM
  | ALGO__RANGE_IGNORE_VALID_HEIGHT_MM | ALGO__RANGE_MIN_CLIP
  | ALGO__CONSISTENCY_CHECK__TOLERANCE | SYSTEM__THRESH_RATE_HIGH
  | SYSTEM__THRESH_RATE_LOW | DSS_CONFIG__APERTURE_ATTENUATION
  | RANGE_CONFIG__SIGMA_THRESH | RANGE_CONFIG__MIN_COUNT_RATE_RTN_LIMIT_MCPS
  | SYSTEM__GROUPED_PARAMETER_HOLD_0 | SYSTEM__GROUPED_PARAMETER_HOLD_1
  | SD_CONFIG__QUANTIFIER | SYSTEM__GROUPED_PARAMETER_HOLD
  | SYSTEM__SEED_CONFIG | SYSTEM__SEQUENCE_CONFIG
  | DSS_CONFIG__MANUAL_EFFECTIVE_SPADS_SELECT | DSS_CONFIG__ROI_MODE_CONTROL
  | ALGO__PART_TO_PART_RANGE_OFFSET_MM | MM_CONFIG__OUTER_OFFSET_MM
  | RANGE_CONFIG__VCSEL_PERIOD_A | RANGE_CONFIG__VCSEL_PERIOD_B
  | RANGE_CONFIG__VALID_PHASE_HIGH | SD_CONFIG__WOI_SD0 | SD_CONFIG__WOI_SD1
  | SD_CONFIG__INITIAL_PHASE_SD0 | SD_CONFIG__INITIAL_PHASE_SD1
  | PHASECAL_CONFIG__TIMEOUT_MACROP | MM_CONFIG__TIMEOUT_MACROP_A
  | RANGE_CONFIG__TIMEOUT_MACROP_A | MM_CONFIG__TIMEOUT_MACROP_B
  | RANGE_CONFIG__TIMEOUT_MACROP_B | ROI_CONFIG__USER_ROI_CENTRE_SPAD
  | ROI_CONFIG__USER_ROI_REQUESTED_GLOBAL_XY_SIZE
  | SYSTEM__INTERMEASUREMENT_PERIOD | SYSTEM__INTERRUPT_CLEAR
  | SYSTEM__MODE_START | VHV_CONFIG__INIT
  | VHV_CONFIG__TIMEOUT_MACROP_LOOP_BOUND | PHASECAL_CONFIG__OVERRIDE
  | CAL_CONFIG__VCSEL_START | PHASECAL_RESULT__VCSEL_START
  | RESULT__RANGE_STATUS

datatype DistanceMode = Short | Medium | Long | Unknown

text \<open>
  The semantic range status. The source's enumerator \<^verbatim>\<open>None\<close> is
  \<open>None_RangeStatus\<close> here, since \<open>None\<close> is the constructor of
  \<open>option\<close>.
\<close>

datatype RangeStatus =
    RangeValid | SigmaFail | SignalFail | RangeValidMinRangeClipped
  | OutOfBoundsFail | HardwareFail | RangeValidNoWrapCheckFail
  | WrapTargetFail | XtalkSignalFail | SynchronizationInt | MinRangeFail
  | None_RangeStatus

text \<open>
  What the driver takes from its header and the sources do not show: the constants
  \<^verbatim>\<open>TimingGuard\<close>, \<^verbatim>\<open>TargetRate\<close> and
  \<^verbatim>\<open>AddressDefault\<close>, and the inline conversion
  \<^verbatim>\<open>countRateFixedToFloat\<close>. They are parameters of the model.
\<close>

record VL53L1X_h =
  TimingGuard :: uint32_t
  TargetRate :: uint16_t
  AddressDefault :: uint8_t
  countRateFixedToFloat :: "uint16_t \<Rightarrow> real"

record ResultBuffer =
  range_status :: uint8_t
  stream_count :: uint8_t
  dss_actual_effective_spads_sd0 :: uint16_t
  ambient_count_rate_mcps_sd0 :: uint16_t
  final_crosstalk_corrected_range_mm_sd0 :: uint16_t
  peak_signal_count_rate_crosstalk_corrected_mcps_sd0 :: uint16_t

text \<open>
  The field \<^verbatim>\<open>range_status\<close> of the ranging data is
  \<open>range_status_rd\<close>: a record field is a constant, and the result buffer
  has a field of that name already.
\<close>

record RangingData =
  range_mm :: uint16_t
  range_status_rd :: RangeStatus
  peak_signal_count_rate_MCPS :: real
  ambient_count_rate_MCPS :: real

subsection \<open>The bus and the device behind it\<close>

text \<open>
  The bus is an external collaborator. It is modelled as a simulated transport: a
  device whose registers are a byte store that keeps what is written to it, with the
  auto-incrementing register index of the device, a receive buffer that
  \<^verbatim>\<open>requestFrom\<close> fills and \<^verbatim>\<open>read\<close> empties, the
  status every \<^verbatim>\<open>endTransmission\<close> returns, and the trace of
  all transactions in the order they were made.
\<close>

datatype bus_event =
    Transmit uint8_t regAddr "uint8_t list"
  | Request uint8_t nat

record TwoWire =
  dev_mem :: "regAddr \<times> nat \<Rightarrow> uint8_t"
  dev_index :: "regAddr \<times> nat"
  dev_ack :: uint8_t
  rx_buffer :: "uint8_t list"
  bus_trace :: "bus_event list"

text \<open>
  The driver object, together with the two parts of the world it acts on: the bus and the
  millisecond clock that \<^verbatim>\<open>millis\<close> reads.
\<close>

record VL53L1X =
  bus :: TwoWire
  clock_ms :: uint32_t
  address :: uint8_t
  io_timeout :: uint16_t
  did_timeout :: bool
  timeout_start_ms :: uint16_t
  calibrated :: bool
  saved_vhv_init :: uint8_t
  saved_vhv_timeout :: uint8_t
  distance_mode :: DistanceMode
  fast_osc_frequency :: uint16_t
  osc_calibrate_val :: uint16_t
  last_status :: uint8_t
  results :: ResultBuffer
  ranging_data :: RangingData

text \<open>
  One addressed write transaction: the register address, then the payload bytes, which
  the device stores at the register and the bytes after it. An empty payload only sets
  the register index, as the first half of a read does.
\<close>

definition transmit :: "uint8_t \<Rightarrow> regAddr \<Rightarrow> uint8_t list \<Rightarrow> TwoWire \<Rightarrow> uint8_t \<times> TwoWire" where
  "transmit a reg payload b =
     (dev_ack b,
      b\<lparr>dev_mem := (\<lambda>(r, i). if r = reg \<and> i < length payload then payload ! i
                               else dev_mem b (r, i)),
        dev_index := (reg, length payload),
        bus_trace := bus_trace b @ [Transmit a reg payload]\<rparr>)"

fun fetch :: "(regAddr \<times> nat \<Rightarrow> uint8_t) \<Rightarrow> regAddr \<Rightarrow> nat \<Rightarrow> nat \<Rightarrow> uint8_t list" where
  "fetch m r k 0 = []"
| "fetch m r k (Suc n) = m (r, k) # fetch m r (Suc k) n"

definition requestFrom :: "uint8_t \<Rightarrow> nat \<Rightarrow> TwoWire \<Rightarrow> TwoWire" where
  "requestFrom a n b =
     b\<lparr>rx_buffer := fetch (dev_mem b) (fst (dev_index b)) (snd (dev_index b)) n,
       dev_index := (fst (dev_index b), snd (dev_index b) + n),
       bus_trace := bus_trace b @ [Request a n]\<rparr>"

text \<open>The next received byte, or -1 when the receive buffer is empty.\<close>

definition bus_read :: "TwoWire \<Rightarrow> int \<times> TwoWire" where
  "bus_read b =
     (case rx_buffer b of
        [] \<Rightarrow> (- 1, b)
      | x # xs \<Rightarrow> (uint x, b\<lparr>rx_buffer := xs\<rparr>))"

section \<open>Register access\<close>

text \<open>
  Each access is one transaction on the bus and stores the status of its transmission in
  \<^verbatim>\<open>last_status\<close>. A received byte is the \<^verbatim>\<open>int\<close> that
  \<^verbatim>\<open>read\<close> returns, cut to the width the source casts it to.
\<close>

definition writeReg :: "regAddr \<Rightarrow> uint8_t \<Rightarrow> VL53L1X \<Rightarrow> VL53L1X" where
  "writeReg reg v s =
     (let (st, b) = transmit (address s) reg [v] (bus s)
      in s\<lparr>bus := b, last_status := st\<rparr>)"

definition writeReg16Bit :: "regAddr \<Rightarrow> uint16_t \<Rightarrow> VL53L1X \<Rightarrow> VL53L1X" where
  "writeReg16Bit reg v s =
     (let (st, b) = transmit (address s) reg [ucast (drop_bit 8 v), ucast v] (bus s)
      in s\<lparr>bus := b, last_status := st\<rparr>)"

definition writeReg32Bit :: "regAddr \<Rightarrow> uint32_t \<Rightarrow> VL53L1X \<Rightarrow> VL53L1X" where
  "writeReg32Bit reg v s =
     (let (st, b) = transmit (address s) reg
          [ucast (drop_bit 24 v), ucast (drop_bit 16 v), ucast (drop_bit 8 v), ucast v] (bus s)
      in s\<lparr>bus := b, last_status := st\<rparr>)"

definition readReg :: "regAddr \<Rightarrow> VL53L1X \<Rightarrow> uint8_t \<times> VL53L1X" where
  "readReg reg s =
     (let (st, b) = transmit (address s) reg [] (bus s);
          b = requestFrom (address s) 1 b;
          (r0, b) = bus_read b;
          v = (word_of_int r0 :: uint8_t)
      in (v, s\<lparr>bus := b, last_status := st\<rparr>))"

definition readReg16Bit :: "regAddr \<Rightarrow> VL53L1X \<Rightarrow> uint16_t \<times> VL53L1X" where
  "readReg16Bit reg s =
     (let (st, b) = transmit (address s) reg [] (bus s);
          b = requestFrom (address s) 2 b;
          (r0, b) = bus_read b;
          v = push_bit 8 (word_of_int r0 :: uint16_t);
          (r1, b) = bus_read b;
          v = v OR word_of_int r1
      in (v, s\<lparr>bus := b, last_status := st\<rparr>))"

definition readReg32Bit :: "regAddr \<Rightarrow> VL53L1X \<Rightarrow> uint32_t \<times> VL53L1X" where
  "readReg32Bit reg s =
     (let (st, b) = transmit (address s) reg [] (bus s);
          b = requestFrom (address s) 4 b;
          (r0, b) = bus_read b;
          v = push_bit 24 (word_of_int r0 :: uint32_t);
          (r1, b) = bus_read b;
          v = v OR push_bit 16 (word_of_int r1 :: uint32_t);
          (r2, b) = bus_read b;
          v = v OR push_bit 8 (ucast (word_of_int r2 :: uint16_t) :: uint32_t);
          (r3, b) = bus_read b;
          v = v OR word_of_int r3
      in (v, s\<lparr>bus := b, last_status := st\<rparr>))"

section \<open>Fixed-point timing math\<close>

text \<open>
  Unsigned division by zero and a shift of a 32-bit value by 32 or more have no defined
  result in the source language; the model returns them as faults.
\<close>

datatype fault = DivisionByZero | ShiftOutOfRange

definition checked_div :: "uint32_t \<Rightarrow> uint32_t \<Rightarrow> fault + uint32_t" where
  "checked_div a b = (if b = 0 then Inl DivisionByZero else Inr (a div b))"

definition decodeTimeout :: "uint16_t \<Rightarrow> fault + uint32_t" where
  "decodeTimeout reg_val =
     (if unat (drop_bit 8 reg_val) < 32
      then Inr (push_bit (unat (drop_bit 8 reg_val)) (ucast (reg_val AND 0xFF) :: uint32_t) + 1)
      else Inl ShiftOutOfRange)"

text \<open>
  The \<^verbatim>\<open>while\<close> loop of \<^verbatim>\<open>encodeTimeout\<close>: it halves
  \<^verbatim>\<open>ls_byte\<close> and counts in \<^verbatim>\<open>ms_byte\<close> until no bit
  above the low eight is set.
\<close>

function encodeTimeout_loop :: "uint32_t \<Rightarrow> uint16_t \<Rightarrow> uint32_t \<times> uint16_t" where
  "encodeTimeout_loop ls_byte ms_byte =
     (if (ls_byte AND 0xFFFFFF00) > 0
      then encodeTimeout_loop (drop_bit 1 ls_byte) (ms_byte + 1)
      else (ls_byte, ms_byte))"
  by pat_completeness auto
termination
proof (relation "measure (\<lambda>(ls_byte, ms_byte). unat ls_byte)")
  show "wf (measure (\<lambda>(ls_byte, ms_byte). unat ls_byte))"
    by simp
next
  fix ls_byte :: uint32_t and ms_byte :: uint16_t
  assume "0 < ls_byte AND 0xFFFFFF00"
  then have "ls_byte \<noteq> 0"
    by auto
  then have "0 < unat ls_byte"
    by (simp add: unat_gt_0)
  then have "unat ls_byte div 2 < unat ls_byte"
    by simp
  then show "((drop_bit 1 ls_byte, ms_byte + 1), (ls_byte, ms_byte))
      \<in> measure (\<lambda>(ls_byte, ms_byte). unat ls_byte)"
    by (simp add: drop_bit_eq_div unat_div)
qed

definition encodeTimeout :: "uint32_t \<Rightarrow> uint16_t" where
  "encodeTimeout timeout_mclks =
     (if timeout_mclks > 0
      then (let (ls_byte, ms_byte) = encodeTimeout_loop (timeout_mclks - 1) 0
            in ucast (push_bit 8 (ucast ms_byte :: uint32_t) OR (ls_byte AND 0xFF)))
      else 0)"

definition timeoutMclksToMicroseconds :: "uint32_t \<Rightarrow> uint32_t \<Rightarrow> uint32_t" where
  "timeoutMclksToMicroseconds timeout_mclks macro_period_us =
     ucast (drop_bit 12 ((ucast timeout_mclks :: uint64_t) * ucast macro_period_us + 0x800))"

definition timeoutMicrosecondsToMclks :: "uint32_t \<Rightarrow> uint32_t \<Rightarrow> fault + uint32_t" where
  "timeoutMicrosecondsToMclks timeout_us macro_period_us =
     checked_div (push_bit 12 timeout_us + drop_bit 1 macro_period_us) macro_period_us"

definition calcMacroPeriod :: "uint8_t \<Rightarrow> VL53L1X \<Rightarrow> fault + uint32_t" where
  "calcMacroPeriod vcsel_period s =
     (case checked_div (push_bit 30 1) (ucast (fast_osc_frequency s)) of
        Inl e \<Rightarrow> Inl e
      | Inr pll_period_us \<Rightarrow>
         (let vcsel_period_pclks = (push_bit 1 (vcsel_period + 1) :: uint8_t);
              macro_period_us = 2304 * pll_period_us;
              macro_period_us = drop_bit 6 macro_period_us;
              macro_period_us = macro_period_us * ucast vcsel_period_pclks;
              macro_period_us = drop_bit 6 macro_period_us
          in Inr macro_period_us))"

section \<open>The driver\<close>

text \<open>
  The constructor. The members it does not initialize are zero, as they are for an object
  of static storage duration such as the sensor array of \<^verbatim>\<open>main.cpp\<close>.
  The bus and the clock reading are those of the world the driver is created in.
\<close>

definition VL53L1X_new :: "VL53L1X_h \<Rightarrow> TwoWire \<Rightarrow> uint32_t \<Rightarrow> VL53L1X" where
  "VL53L1X_new h wire now =
     \<lparr>bus = wire, clock_ms = now, address = AddressDefault h, io_timeout = 0,
      did_timeout = False, timeout_start_ms = 0, calibrated = False,
      saved_vhv_init = 0, saved_vhv_timeout = 0, distance_mode = Unknown,
      fast_osc_frequency = 0, osc_calibrate_val = 0, last_status = 0,
      results = \<lparr>range_status = 0, stream_count = 0,
        dss_actual_effective_spads_sd0 = 0, ambient_count_rate_mcps_sd0 = 0,
        final_crosstalk_corrected_range_mm_sd0 = 0,
        peak_signal_count_rate_crosstalk_corrected_mcps_sd0 = 0\<rparr>,
      ranging_data = \<lparr>range_mm = 0, range_status_rd = RangeValid,
        peak_signal_count_rate_MCPS = 0, ambient_count_rate_MCPS = 0\<rparr>\<rparr>"

definition setAddress :: "uint8_t \<Rightarrow> VL53L1X \<Rightarrow> VL53L1X" where
  "setAddress new_addr s =
     (let s = writeReg I2C_SLAVE__DEVICE_ADDRESS (new_addr AND 0x7F) s
      in s\<lparr>address := new_addr\<rparr>)"

subsection \<open>Timeouts and the clock\<close>

text \<open>
  The millisecond clock of the platform is simulated: it advances by one millisecond each
  time \<^verbatim>\<open>millis\<close> reads it, and by the argument of a delay.
\<close>

definition millis :: "VL53L1X \<Rightarrow> uint32_t \<times> VL53L1X" where
  "millis s = (clock_ms s, s\<lparr>clock_ms := clock_ms s + 1\<rparr>)"

definition delay :: "uint32_t \<Rightarrow> VL53L1X \<Rightarrow> VL53L1X" where
  "delay ms s = s\<lparr>clock_ms := clock_ms s + ms\<rparr>"

definition delayMicroseconds :: "uint32_t \<Rightarrow> VL53L1X \<Rightarrow> VL53L1X" where
  "delayMicroseconds us s = s\<lparr>clock_ms := clock_ms s + us div 1000\<rparr>"

text \<open>
  Modelled from the spec: \<^verbatim>\<open>startTimeout\<close> is an inline function of the
  header, which is not among the sources. A blocking poll is bounded by the configured
  timeout; the start of the poll is the clock reading taken here.
\<close>

definition startTimeout :: "VL53L1X \<Rightarrow> VL53L1X" where
  "startTimeout s = (let (now, s) = millis s in s\<lparr>timeout_start_ms := ucast now\<rparr>)"

text \<open>
  Modelled from the spec: \<^verbatim>\<open>checkTimeoutExpired\<close> is an inline function of
  the header, which is not among the sources. A timeout of 0 blocks indefinitely;
  otherwise the poll has expired once more than the timeout has passed since its start.
\<close>

definition checkTimeoutExpired :: "VL53L1X \<Rightarrow> bool \<times> VL53L1X" where
  "checkTimeoutExpired s =
     (if io_timeout s > 0
      then (let (now, s) = millis s
            in ((ucast now - timeout_start_ms s :: uint16_t) > io_timeout s, s))
      else (False, s))"

text \<open>
  Modelled from the spec: \<^verbatim>\<open>dataReady\<close> is an inline function of the
  header, which is not among the sources. \<^verbatim>\<open>read\<close> polls a data-ready bit;
  the bit is taken to be bit 0 of \<^verbatim>\<open>GPIO__TIO_HV_STATUS\<close>, ready when clear.
\<close>

definition dataReady :: "VL53L1X \<Rightarrow> bool \<times> VL53L1X" where
  "dataReady s = (let (v, s) = readReg GPIO__TIO_HV_STATUS s in (v AND 0x01 = 0, s))"

subsection \<open>Timing budget and distance mode\<close>

definition getMeasurementTimingBudget :: "VL53L1X_h \<Rightarrow> VL53L1X \<Rightarrow> fault + (uint32_t \<times> VL53L1X)" where
  "getMeasurementTimingBudget h s =
     (let (vcsel_period, s) = readReg RANGE_CONFIG__VCSEL_PERIOD_A s
      in case calcMacroPeriod vcsel_period s of
           Inl e \<Rightarrow> Inl e
         | Inr macro_period_us \<Rightarrow>
            (let (reg_val, s) = readReg16Bit RANGE_CONFIG__TIMEOUT_MACROP_A s
             in case decodeTimeout reg_val of
                  Inl e \<Rightarrow> Inl e
                | Inr timeout_mclks \<Rightarrow>
                   (let range_config_timeout_us =
                          timeoutMclksToMicroseconds timeout_mclks macro_period_us
                    in Inr (2 * range_config_timeout_us + TimingGuard h, s))))"

definition setMeasurementTimingBudget :: "VL53L1X_h \<Rightarrow> uint32_t \<Rightarrow> VL53L1X \<Rightarrow> fault + (bool \<times> VL53L1X)" where
  "setMeasurementTimingBudget h budget_us s =
     (if budget_us \<le> TimingGuard h then Inr (False, s)
      else
       (let budget_us = budget_us - TimingGuard h;
            range_config_timeout_us = budget_us
        in if range_config_timeout_us > 1100000 then Inr (False, s)
           else
            (let range_config_timeout_us = range_config_timeout_us div 2;
                 (vcsel_period, s) = readReg RANGE_CONFIG__VCSEL_PERIOD_A s
             in case calcMacroPeriod vcsel_period s of
                  Inl e \<Rightarrow> Inl e
                | Inr macro_period_us \<Rightarrow>
             (case timeoutMicrosecondsToMclks 1000 macro_period_us of
                  Inl e \<Rightarrow> Inl e
                | Inr phasecal_timeout_mclks \<Rightarrow>
             (let phasecal_timeout_mclks =
                    (if phasecal_timeout_mclks > 0xFF then 0xFF else phasecal_timeout_mclks);
                  s = writeReg PHASECAL_CONFIG__TIMEOUT_MACROP (ucast phasecal_timeout_mclks) s
              in case timeoutMicrosecondsToMclks 1 macro_period_us of
                  Inl e \<Rightarrow> Inl e
                | Inr mm_a \<Rightarrow>
             (let s = writeReg16Bit MM_CONFIG__TIMEOUT_MACROP_A (encodeTimeout mm_a) s
              in case timeoutMicrosecondsToMclks range_config_timeout_us macro_period_us of
                  Inl e \<Rightarrow> Inl e
                | Inr range_a \<Rightarrow>
             (let s = writeReg16Bit RANGE_CONFIG__TIMEOUT_MACROP_A (encodeTimeout range_a) s;
                  (vcsel_period, s) = readReg RANGE_CONFIG__VCSEL_PERIOD_B s
              in case calcMacroPeriod vcsel_period s of
                  Inl e \<Rightarrow> Inl e
                | Inr macro_period_us \<Rightarrow>
             (case timeoutMicrosecondsToMclks 1 macro_period_us of
                  Inl e \<Rightarrow> Inl e
                | Inr mm_b \<Rightarrow>
             (let s = writeReg16Bit MM_CONFIG__TIMEOUT_MACROP_B (encodeTimeout mm_b) s
              in case timeoutMicrosecondsToMclks range_config_timeout_us macro_period_us of
                  Inl e \<Rightarrow> Inl e
                | Inr range_b \<Rightarrow>
             (let s = writeReg16Bit RANGE_CONFIG__TIMEOUT_MACROP_B (encodeTimeout range_b) s
              in Inr (True, s)))))))))))"

text \<open>
  The register table of a distance mode: the body of the \<^verbatim>\<open>switch\<close>.
  \<open>None\<close> is its \<^verbatim>\<open>default\<close> branch.
\<close>

definition distance_mode_registers :: "DistanceMode \<Rightarrow> VL53L1X \<Rightarrow> VL53L1X option" where
  "distance_mode_registers mode s =
     (case mode of
        Short \<Rightarrow>
          (let s = writeReg RANGE_CONFIG__VCSEL_PERIOD_A 0x07 s;
               s = writeReg RANGE_CONFIG__VCSEL_PERIOD_B 0x05 s;
               s = writeReg RANGE_CONFIG__VALID_PHASE_HIGH 0x38 s;
               s = writeReg SD_CONFIG__WOI_SD0 0x07 s;
               s = writeReg SD_CONFIG__WOI_SD1 0x05 s;
               s = writeReg SD_CONFIG__INITIAL_PHASE_SD0 6 s;
               s = writeReg SD_CONFIG__INITIAL_PHASE_SD1 6 s
           in Some s)
      | Medium \<Rightarrow>
          (let s = writeReg RANGE_CONFIG__VCSEL_PERIOD_A 0x0B s;
               s = writeReg RANGE_CONFIG__VCSEL_PERIOD_B 0x09 s;
               s = writeReg RANGE_CONFIG__VALID_PHASE_HIGH 0x78 s;
               s = writeReg SD_CONFIG__WOI_SD0 0x0B s;
               s = writeReg SD_CONFIG__WOI_SD1 0x09 s;
               s = writeReg SD_CONFIG__INITIAL_PHASE_SD0 10 s;
               s = writeReg SD_CONFIG__INITIAL_PHASE_SD1 10 s
           in Some s)
      | Long \<Rightarrow>
          (let s = writeReg RANGE_CONFIG__VCSEL_PERIOD_A 0x0F s;
               s = writeReg RANGE_CONFIG__VCSEL_PERIOD_B 0x0D s;
               s = writeReg RANGE_CONFIG__VALID_PHASE_HIGH 0xB8 s;
               s = writeReg SD_CONFIG__WOI_SD0 0x0F s;
               s = writeReg SD_CONFIG__WOI_SD1 0x0D s;
               s = writeReg SD_CONFIG__INITIAL_PHASE_SD0 14 s;
               s = writeReg SD_CONFIG__INITIAL_PHASE_SD1 14 s
           in Some s)
      | Unknown \<Rightarrow> None)"

definition setDistanceMode :: "VL53L1X_h \<Rightarrow> DistanceMode \<Rightarrow> VL53L1X \<Rightarrow> fault + (bool \<times> VL53L1X)" where
  "setDistanceMode h mode s =
     (case getMeasurementTimingBudget h s of
        Inl e \<Rightarrow> Inl e
      | Inr (budget_us, s) \<Rightarrow>
         (case distance_mode_registers mode s of
            None \<Rightarrow> Inr (False, s)
          | Some s \<Rightarrow>
             (case setMeasurementTimingBudget h budget_us s of
                Inl e \<Rightarrow> Inl e
              | Inr (applied, s) \<Rightarrow> Inr (True, s\<lparr>distance_mode := mode\<rparr>))))"

subsection \<open>Region of interest\<close>

text \<open>
  The size byte is computed in \<^verbatim>\<open>int\<close>, as the source's integer promotion
  does, and cut to eight bits when it is passed to \<^verbatim>\<open>writeReg\<close>.
\<close>

definition setROISize :: "uint8_t \<Rightarrow> uint8_t \<Rightarrow> VL53L1X \<Rightarrow> VL53L1X" where
  "setROISize width height s =
     (let width = (if width > 16 then 16 else width);
          height = (if height > 16 then 16 else height);
          s = (if width > 10 \<or> height > 10
               then writeReg ROI_CONFIG__USER_ROI_CENTRE_SPAD 199 s else s)
      in writeReg ROI_CONFIG__USER_ROI_REQUESTED_GLOBAL_XY_SIZE
           (word_of_int (push_bit 4 (uint height - 1) OR (uint width - 1))) s)"

definition getROISize :: "VL53L1X \<Rightarrow> (uint8_t \<times> uint8_t) \<times> VL53L1X" where
  "getROISize s =
     (let (reg_val, s) = readReg ROI_CONFIG__USER_ROI_REQUESTED_GLOBAL_XY_SIZE s
      in (((reg_val AND 0xF) + 1, drop_bit 4 reg_val + 1), s))"

definition setROICenter :: "uint8_t \<Rightarrow> VL53L1X \<Rightarrow> VL53L1X" where
  "setROICenter spadNumber s = writeReg ROI_CONFIG__USER_ROI_CENTRE_SPAD spadNumber s"

definition getROICenter :: "VL53L1X \<Rightarrow> uint8_t \<times> VL53L1X" where
  "getROICenter s = readReg ROI_CONFIG__USER_ROI_CENTRE_SPAD s"

subsection \<open>Ranging\<close>

definition startContinuous :: "uint32_t \<Rightarrow> VL53L1X \<Rightarrow> VL53L1X" where
  "startContinuous period_ms s =
     (let s = writeReg32Bit SYSTEM__INTERMEASUREMENT_PERIOD
                (period_ms * ucast (osc_calibrate_val s)) s;
          s = writeReg SYSTEM__INTERRUPT_CLEAR 0x01 s
      in writeReg SYSTEM__MODE_START 0x40 s)"

definition stopContinuous :: "VL53L1X \<Rightarrow> VL53L1X" where
  "stopContinuous s =
     (let s = writeReg SYSTEM__MODE_START 0x80 s;
          s = s\<lparr>calibrated := False\<rparr>;
          s = (if saved_vhv_init s \<noteq> 0
               then writeReg VHV_CONFIG__INIT (saved_vhv_init s) s else s);
          s = (if saved_vhv_timeout s \<noteq> 0
               then writeReg VHV_CONFIG__TIMEOUT_MACROP_LOOP_BOUND (saved_vhv_timeout s) s
               else s)
      in writeReg PHASECAL_CONFIG__OVERRIDE 0x00 s)"

definition setupManualCalibration :: "VL53L1X \<Rightarrow> VL53L1X" where
  "setupManualCalibration s =
     (let (v, s) = readReg VHV_CONFIG__INIT s;
          s = s\<lparr>saved_vhv_init := v\<rparr>;
          (v, s) = readReg VHV_CONFIG__TIMEOUT_MACROP_LOOP_BOUND s;
          s = s\<lparr>saved_vhv_timeout := v\<rparr>;
          s = writeReg VHV_CONFIG__INIT (saved_vhv_init s AND 0x7F) s;
          s = writeReg VHV_CONFIG__TIMEOUT_MACROP_LOOP_BOUND
                ((saved_vhv_timeout s AND 0x03) + push_bit 2 3) s;
          s = writeReg PHASECAL_CONFIG__OVERRIDE 0x01 s;
          (v, s) = readReg PHASECAL_RESULT__VCSEL_START s
      in writeReg CAL_CONFIG__VCSEL_START v s)"

text \<open>
  The seventeen bytes of the result block, read one after the other; the bytes the
  source does not use are read and dropped.
\<close>

definition readResults :: "VL53L1X \<Rightarrow> VL53L1X" where
  "readResults s =
     (let (st, b) = transmit (address s) RESULT__RANGE_STATUS [] (bus s);
          b = requestFrom (address s) 17 b;
          (r, b) = bus_read b;  range_status' = (word_of_int r :: uint8_t);
          (r, b) = bus_read b;
          (r, b) = bus_read b;  stream_count' = (word_of_int r :: uint8_t);
          (r, b) = bus_read b;  spads = push_bit 8 (word_of_int r :: uint16_t);
          (r, b) = bus_read b;  spads = spads OR word_of_int r;
          (r, b) = bus_read b;
          (r, b) = bus_read b;
          (r, b) = bus_read b;  ambient = push_bit 8 (word_of_int r :: uint16_t);
          (r, b) = bus_read b;  ambient = ambient OR word_of_int r;
          (r, b) = bus_read b;
          (r, b) = bus_read b;
          (r, b) = bus_read b;
          (r, b) = bus_read b;
          (r, b) = bus_read b;  range = push_bit 8 (word_of_int r :: uint16_t);
          (r, b) = bus_read b;  range = range OR word_of_int r;
          (r, b) = bus_read b;  peak = push_bit 8 (word_of_int r :: uint16_t);
          (r, b) = bus_read b;  peak = peak OR word_of_int r
      in s\<lparr>bus := b, last_status := st,
           results := \<lparr>range_status = range_status', stream_count = stream_count',
             dss_actual_effective_spads_sd0 = spads,
             ambient_count_rate_mcps_sd0 = ambient,
             final_crosstalk_corrected_range_mm_sd0 = range,
             peak_signal_count_rate_crosstalk_corrected_mcps_sd0 = peak\<rparr>\<rparr>)"

definition updateDSS :: "VL53L1X_h \<Rightarrow> VL53L1X \<Rightarrow> fault + VL53L1X" where
  "updateDSS h s =
     (let spadCount = dss_actual_effective_spads_sd0 (results s);
          fallback = Inr (writeReg16Bit DSS_CONFIG__MANUAL_EFFECTIVE_SPADS_SELECT 0x8000 s)
      in if spadCount \<noteq> 0
         then
          (let totalRatePerSpad =
                 (ucast (peak_signal_count_rate_crosstalk_corrected_mcps_sd0 (results s)) :: uint32_t)
                   + ucast (ambient_count_rate_mcps_sd0 (results s));
               totalRatePerSpad = (if totalRatePerSpad > 0xFFFF then 0xFFFF else totalRatePerSpad);
               totalRatePerSpad = push_bit 16 totalRatePerSpad
           in case checked_div totalRatePerSpad (ucast spadCount) of
                Inl e \<Rightarrow> Inl e
              | Inr totalRatePerSpad \<Rightarrow>
                 if totalRatePerSpad \<noteq> 0
                 then
                  (case checked_div (push_bit 16 (ucast (TargetRate h))) totalRatePerSpad of
                     Inl e \<Rightarrow> Inl e
                   | Inr requiredSpads \<Rightarrow>
                      (let requiredSpads =
                             (if requiredSpads > 0xFFFF then 0xFFFF else requiredSpads)
                       in Inr (writeReg16Bit DSS_CONFIG__MANUAL_EFFECTIVE_SPADS_SELECT
                                 (ucast requiredSpads) s)))
                 else fallback)
         else fallback)"

definition getRangingData :: "VL53L1X_h \<Rightarrow> VL53L1X \<Rightarrow> VL53L1X" where
  "getRangingData h s =
     (let range = final_crosstalk_corrected_range_mm_sd0 (results s);
          range_mm' = (ucast (((ucast range :: uint32_t) * 2011 + 0x0400) div 0x0800) :: uint16_t);
          c = range_status (results s);
          status =
            (if c = 17 \<or> c = 2 \<or> c = 1 \<or> c = 3 then HardwareFail
             else if c = 13 then MinRangeFail
             else if c = 18 then SynchronizationInt
             else if c = 5 then OutOfBoundsFail
             else if c = 4 then SignalFail
             else if c = 6 then SigmaFail
             else if c = 7 then WrapTargetFail
             else if c = 12 then XtalkSignalFail
             else if c = 8 then RangeValidMinRangeClipped
             else if c = 9 then
               (if stream_count (results s) = 0 then RangeValidNoWrapCheckFail
                else RangeValid)
             else None_RangeStatus)
      in s\<lparr>ranging_data :=
             \<lparr>range_mm = range_mm', range_status_rd = status,
              peak_signal_count_rate_MCPS =
                countRateFixedToFloat h
                  (peak_signal_count_rate_crosstalk_corrected_mcps_sd0 (results s)),
              ambient_count_rate_MCPS =
                countRateFixedToFloat h (ambient_count_rate_mcps_sd0 (results s))\<rparr>\<rparr>)"

text \<open>
  The poll of \<^verbatim>\<open>read\<close>: \<open>None\<close> when it never ends, otherwise
  whether data became ready (\<open>True\<close>) or the timeout expired (\<open>False\<close>).
\<close>

partial_function (option) read_poll :: "VL53L1X \<Rightarrow> (bool \<times> VL53L1X) option" where
  "read_poll s =
     (if fst (dataReady s) then Some (True, snd (dataReady s))
      else if fst (checkTimeoutExpired (snd (dataReady s)))
      then Some (False, (snd (checkTimeoutExpired (snd (dataReady s))))\<lparr>did_timeout := True\<rparr>)
      else read_poll (snd (checkTimeoutExpired (snd (dataReady s)))))"

definition read :: "VL53L1X_h \<Rightarrow> bool \<Rightarrow> VL53L1X \<Rightarrow> (fault + (uint16_t \<times> VL53L1X)) option" where
  "read h blocking s =
     (case (if blocking then read_poll (startTimeout s) else Some (True, s)) of
        None \<Rightarrow> None
      | Some (False, s) \<Rightarrow> Some (Inr (0, s))
      | Some (True, s) \<Rightarrow>
         (let s = readResults s;
              s = (if \<not> calibrated s
                   then (setupManualCalibration s)\<lparr>calibrated := True\<rparr> else s)
          in case updateDSS h s of
               Inl e \<Rightarrow> Some (Inl e)
             | Inr s \<Rightarrow>
                (let s = getRangingData h s;
                     s = writeReg SYSTEM__INTERRUPT_CLEAR 0x01 s
                 in Some (Inr (range_mm (ranging_data s), s)))))"

definition readSingle :: "VL53L1X_h \<Rightarrow> bool \<Rightarrow> VL53L1X \<Rightarrow> (fault + (uint16_t \<times> VL53L1X)) option" where
  "readSingle h blocking s =
     (let s = writeReg SYSTEM__INTERRUPT_CLEAR 0x01 s;
          s = writeReg SYSTEM__MODE_START 0x10 s
      in if blocking then read h True s else Some (Inr (0, s)))"

definition timeoutOccurred :: "VL53L1X \<Rightarrow> bool \<times> VL53L1X" where
  "timeoutOccurred s = (let tmp = did_timeout s in (tmp, s\<lparr>did_timeout := False\<rparr>))"

definition rangeStatusToString :: "RangeStatus \<Rightarrow> string" where
  "rangeStatusToString status =
     (case status of
        RangeValid \<Rightarrow> ''range valid''
      | SigmaFail \<Rightarrow> ''sigma fail''
      | SignalFail \<Rightarrow> ''signal fail''
      | RangeValidMinRangeClipped \<Rightarrow> ''range valid, min range clipped''
      | OutOfBoundsFail \<Rightarrow> ''out of bounds fail''
      | HardwareFail \<Rightarrow> ''hardware fail''
      | RangeValidNoWrapCheckFail \<Rightarrow> ''range valid, no wrap check fail''
      | WrapTargetFail \<Rightarrow> ''wrap target fail''
      | XtalkSignalFail \<Rightarrow> ''xtalk signal fail''
      | SynchronizationInt \<Rightarrow> ''synchronization int''
      | MinRangeFail \<Rightarrow> ''min range fail''
      | None_RangeStatus \<Rightarrow> ''no update'')"

subsection \<open>Initialization\<close>

text \<open>
  \<^verbatim>\<open>init\<close> is split at the phases its comments mark: the software reset up
  to the start of the boot poll, the data initialization (voltage mode and oscillator
  values), the static initialization, and the defaults applied at the end.
\<close>

definition software_reset :: "VL53L1X \<Rightarrow> VL53L1X" where
  "software_reset s =
     (let s = writeReg SOFT_RESET 0x00 s;
          s = delayMicroseconds 100 s;
          s = writeReg SOFT_RESET 0x01 s;
          s = delay 1 s
      in startTimeout s)"

text \<open>
  The poll for boot completion: \<open>None\<close> when it never ends, otherwise whether the
  device booted (\<open>True\<close>) or the timeout expired (\<open>False\<close>).
\<close>

partial_function (option) init_poll :: "VL53L1X \<Rightarrow> (bool \<times> VL53L1X) option" where
  "init_poll s =
     (if fst (readReg FIRMWARE__SYSTEM_STATUS s) AND 0x01 = 0
         \<or> last_status (snd (readReg FIRMWARE__SYSTEM_STATUS s)) \<noteq> 0
      then
        (if fst (checkTimeoutExpired (snd (readReg FIRMWARE__SYSTEM_STATUS s)))
         then Some (False,
                (snd (checkTimeoutExpired (snd (readReg FIRMWARE__SYSTEM_STATUS s))))
                  \<lparr>did_timeout := True\<rparr>)
         else init_poll (snd (checkTimeoutExpired (snd (readReg FIRMWARE__SYSTEM_STATUS s)))))
      else Some (True, snd (readReg FIRMWARE__SYSTEM_STATUS s)))"

definition data_init :: "bool \<Rightarrow> VL53L1X \<Rightarrow> VL53L1X" where
  "data_init io_2v8 s =
     (let s = (if io_2v8
               then (let (v, s) = readReg PAD_I2C_HV__EXTSUP_CONFIG s
                     in writeReg PAD_I2C_HV__EXTSUP_CONFIG (v OR 0x01) s)
               else s);
          (v, s) = readReg16Bit OSC_MEASURED__FAST_OSC__FREQUENCY s;
          s = s\<lparr>fast_osc_frequency := v\<rparr>;
          (v, s) = readReg16Bit RESULT__OSC_CALIBRATE_VAL s
      in s\<lparr>osc_calibrate_val := v\<rparr>)"

text \<open>
  The static initialization: the register writes of \<^verbatim>\<open>init\<close> between
  the oscillator reads and the default distance mode.
\<close>

definition static_init :: "VL53L1X_h \<Rightarrow> VL53L1X \<Rightarrow> VL53L1X" where
  "static_init h s =
     (let s = writeReg16Bit DSS_CONFIG__TARGET_TOTAL_RATE_MCPS (TargetRate h) s;
          s = writeReg GPIO__TIO_HV_STATUS 0x02 s;
          s = writeReg SIGMA_ESTIMATOR__EFFECTIVE_PULSE_WIDTH_NS 8 s;
          s = writeReg SIGMA_ESTIMATOR__EFFECTIVE_AMBIENT_WIDTH_NS 16 s;
          s = writeReg ALGO__CROSSTALK_COMPENSATION_VALID_HEIGHT_MM 0x01 s;
          s = writeReg ALGO__RANGE_IGNORE_VALID_HEIGHT_MM 0xFF s;
          s = writeReg ALGO__RANGE_MIN_CLIP 0 s;
          s = writeReg ALGO__CONSISTENCY_CHECK__TOLERANCE 2 s;
          s = writeReg16Bit SYSTEM__THRESH_RATE_HIGH 0x0000 s;
          s = writeReg16Bit SYSTEM__THRESH_RATE_LOW 0x0000 s;
          s = writeReg DSS_CONFIG__APERTURE_ATTENUATION 0x38 s;
          s = writeReg16Bit RANGE_CONFIG__SIGMA_THRESH 360 s;
          s = writeReg16Bit RANGE_CONFIG__MIN_COUNT_RATE_RTN_LIMIT_MCPS 192 s;
          s = writeReg SYSTEM__GROUPED_PARAMETER_HOLD_0 0x01 s;
          s = writeReg SYSTEM__GROUPED_PARAMETER_HOLD_1 0x01 s;
          s = writeReg SD_CONFIG__QUANTIFIER 2 s;
          s = writeReg SYSTEM__GROUPED_PARAMETER_HOLD 0x00 s;
          s = writeReg SYSTEM__SEED_CONFIG 1 s;
          s = writeReg SYSTEM__SEQUENCE_CONFIG 0x8B s;
          s = writeReg16Bit DSS_CONFIG__MANUAL_EFFECTIVE_SPADS_SELECT (push_bit 8 200) s
      in writeReg DSS_CONFIG__ROI_MODE_CONTROL 2 s)"

text \<open>
  The result of \<^verbatim>\<open>init\<close> is the source's \<^verbatim>\<open>int\<close>: 0 for
  success, 2 for a boot timeout, and the model ID that was read when it is not 0xEACC.
\<close>

definition init :: "VL53L1X_h \<Rightarrow> bool \<Rightarrow> VL53L1X \<Rightarrow> (fault + (int \<times> VL53L1X)) option" where
  "init h io_2v8 s =
     (let (res, s) = readReg16Bit IDENTIFICATION__MODEL_ID s
      in if res \<noteq> 0xEACC then Some (Inr (uint res, s))
         else
          (case init_poll (software_reset s) of
             None \<Rightarrow> None
           | Some (False, s) \<Rightarrow> Some (Inr (2, s))
           | Some (True, s) \<Rightarrow>
              (let s = data_init io_2v8 s;
                   s = static_init h s
               in case setDistanceMode h Long s of
                    Inl e \<Rightarrow> Some (Inl e)
                  | Inr (r, s) \<Rightarrow>
                     (case setMeasurementTimingBudget h 50000 s of
                        Inl e \<Rightarrow> Some (Inl e)
                      | Inr (r, s) \<Rightarrow>
                         (let (v, s) = readReg16Bit MM_CONFIG__OUTER_OFFSET_MM s;
                              s = writeReg16Bit ALGO__PART_TO_PART_RANGE_OFFSET_MM (v * 4) s
                          in Some (Inr (0, s)))))))"

section \<open>Reference definitions and example devices\<close>

text \<open>
  The status mapping as the specification words it, over the numeric status code and
  stream count.
\<close>

definition status_table :: "nat \<Rightarrow> nat \<Rightarrow> RangeStatus" where
  "status_table code stream =
     (if code \<in> {1, 2, 3, 17} then HardwareFail
      else if code = 13 then MinRangeFail
      else if code = 18 then SynchronizationInt
      else if code = 5 then OutOfBoundsFail
      else if code = 4 then SignalFail
      else if code = 6 then SigmaFail
      else if code = 7 then WrapTargetFail
      else if code = 12 then XtalkSignalFail
      else if code = 8 then RangeValidMinRangeClipped
      else if code = 9 then (if stream = 0 then RangeValidNoWrapCheckFail else RangeValid)
      else None_RangeStatus)"

text \<open>Byte \<open>i\<close> of the result block on the device, and a big-endian 16-bit value.\<close>

definition result_block :: "TwoWire \<Rightarrow> nat \<Rightarrow> uint8_t" where
  "result_block b i = dev_mem b (RESULT__RANGE_STATUS, i)"

definition be16 :: "uint8_t \<Rightarrow> uint8_t \<Rightarrow> uint16_t" where
  "be16 hi lo = push_bit 8 (ucast hi) OR ucast lo"

text \<open>
  The exponent of the timeout encoding as the specification words it: the smallest
  exponent such that the value fits in 8 bits when right-shifted by it, found by halving
  the value until it does.
\<close>

fun timeout_exponent :: "nat \<Rightarrow> nat" where
  "timeout_exponent n = (if n < 256 then 0 else Suc (timeout_exponent (n div 2)))"

text \<open>
  Example values for the parameters of the header, and a simulated sensor: a freshly
  constructed driver on a device whose registers hold the listed bytes and zero
  elsewhere, which acknowledges every transmission.
\<close>

definition header0 :: VL53L1X_h where
  "header0 = \<lparr>TimingGuard = 4528, TargetRate = 0x0A00, AddressDefault = 0x29,
               countRateFixedToFloat = (\<lambda>x. real (unat x) / 128)\<rparr>"

definition device_memory :: "((regAddr \<times> nat) \<times> uint8_t) list \<Rightarrow> regAddr \<times> nat \<Rightarrow> uint8_t" where
  "device_memory bytes = (\<lambda>k. case map_of bytes k of None \<Rightarrow> 0 | Some v \<Rightarrow> v)"

definition simulated_sensor :: "((regAddr \<times> nat) \<times> uint8_t) list \<Rightarrow> VL53L1X" where
  "simulated_sensor bytes =
     VL53L1X_new header0
       \<lparr>dev_mem = device_memory bytes, dev_index = (SOFT_RESET, 0), dev_ack = 0,
        rx_buffer = [], bus_trace = []\<rparr> 0"

text \<open>
  The Dynamic SPAD Selection as the specification words it, over natural numbers: the
  total rate per SPAD, and the SPAD target that is written.
\<close>

definition dss_total_rate_per_spad :: "ResultBuffer \<Rightarrow> nat" where
  "dss_total_rate_per_spad r =
     (min (unat (peak_signal_count_rate_crosstalk_corrected_mcps_sd0 r)
           + unat (ambient_count_rate_mcps_sd0 r)) 65535 * 65536)
       div unat (dss_actual_effective_spads_sd0 r)"

definition dss_required_spads :: "VL53L1X_h \<Rightarrow> ResultBuffer \<Rightarrow> uint16_t" where
  "dss_required_spads h r =
     (if dss_actual_effective_spads_sd0 r = 0 \<or> dss_total_rate_per_spad r = 0 then 0x8000
      else of_nat (min ((unat (TargetRate h) * 65536) div dss_total_rate_per_spad r) 65535))"

text \<open>
  Both macro periods that \<^verbatim>\<open>setMeasurementTimingBudget\<close> divides by are
  defined and nonzero: the stored oscillator frequency is not 0, and neither is the macro
  period of the VCSEL period programmed for range A or for range B.
\<close>

definition macro_periods_nonzero :: "VL53L1X \<Rightarrow> bool" where
  "macro_periods_nonzero s =
     (case calcMacroPeriod (dev_mem (bus s) (RANGE_CONFIG__VCSEL_PERIOD_A, 0)) s of
        Inl e \<Rightarrow> False
      | Inr macro_period_a \<Rightarrow>
         macro_period_a \<noteq> 0 \<and>
         (case calcMacroPeriod (dev_mem (bus s) (RANGE_CONFIG__VCSEL_PERIOD_B, 0)) s of
            Inl e \<Rightarrow> False
          | Inr macro_period_b \<Rightarrow> macro_period_b \<noteq> 0))"

text \<open>
  A sensor in long distance mode with a timing budget programmed: the VCSEL periods of
  the long mode, the range timeout A that a budget of 50000 microseconds encodes to, and
  a stored oscillator frequency.
\<close>

definition long_range_sensor :: VL53L1X where
  "long_range_sensor =
     (simulated_sensor
        [((RANGE_CONFIG__VCSEL_PERIOD_A, 0), 0x0F), ((RANGE_CONFIG__VCSEL_PERIOD_B, 0), 0x0D),
         ((RANGE_CONFIG__TIMEOUT_MACROP_A, 0), 0x00), ((RANGE_CONFIG__TIMEOUT_MACROP_A, 1), 0xE8)])
       \<lparr>fast_osc_frequency := 0xBCCC\<rparr>"

text \<open>
  The bus transactions of \<^verbatim>\<open>setupManualCalibration\<close>, for the bus address
  \<open>a\<close> and the register contents \<open>m\<close> of the device.
\<close>

definition calibration_events :: "uint8_t \<Rightarrow> (regAddr \<times> nat \<Rightarrow> uint8_t) \<Rightarrow> bus_event list" where
  "calibration_events a m =
     [Transmit a VHV_CONFIG__INIT [], Request a 1,
      Transmit a VHV_CONFIG__TIMEOUT_MACROP_LOOP_BOUND [], Request a 1,
      Transmit a VHV_CONFIG__INIT [m (VHV_CONFIG__INIT, 0) AND 0x7F],
      Transmit a VHV_CONFIG__TIMEOUT_MACROP_LOOP_BOUND
        [(m (VHV_CONFIG__TIMEOUT_MACROP_LOOP_BOUND, 0) AND 0x03) + 12],
      Transmit a PHASECAL_CONFIG__OVERRIDE [0x01],
      Transmit a PHASECAL_RESULT__VCSEL_START [], Request a 1,
      Transmit a CAL_CONFIG__VCSEL_START [m (PHASECAL_RESULT__VCSEL_START, 0)]]"

text \<open>
  The VCSEL periods that \<^verbatim>\<open>setDistanceMode\<close> programs for range A and
  range B in each mode.
\<close>

definition vcsel_period_a :: "DistanceMode \<Rightarrow> uint8_t" where
  "vcsel_period_a mode =
     (case mode of Short \<Rightarrow> 0x07 | Medium \<Rightarrow> 0x0B | Long \<Rightarrow> 0x0F | Unknown \<Rightarrow> 0)"

definition vcsel_period_b :: "DistanceMode \<Rightarrow> uint8_t" where
  "vcsel_period_b mode =
     (case mode of Short \<Rightarrow> 0x05 | Medium \<Rightarrow> 0x09 | Long \<Rightarrow> 0x0D | Unknown \<Rightarrow> 0)"

text \<open>
  The timing budget read before a change of distance mode, and the one read after it.
\<close>

definition budget_before :: "VL53L1X_h \<Rightarrow> VL53L1X \<Rightarrow> fault + uint32_t" where
  "budget_before h s =
     (case getMeasurementTimingBudget h s of Inl e \<Rightarrow> Inl e | Inr (b, s1) \<Rightarrow> Inr b)"

definition budget_after :: "VL53L1X_h \<Rightarrow> DistanceMode \<Rightarrow> VL53L1X \<Rightarrow> fault + uint32_t" where
  "budget_after h mode s =
     (case setDistanceMode h mode s of
        Inl e \<Rightarrow> Inl e
      | Inr (r, s2) \<Rightarrow>
         (case getMeasurementTimingBudget h s2 of Inl e \<Rightarrow> Inl e | Inr (b, s3) \<Rightarrow> Inr b))"

text \<open>
  A sensor that has no measurement ready (bit 0 of the status register is set), with a
  stale result block whose raw range is 2000.
\<close>

definition idle_sensor :: VL53L1X where
  "idle_sensor =
     simulated_sensor
       [((GPIO__TIO_HV_STATUS, 0), 0x03),
        ((RESULT__RANGE_STATUS, 13), 0x07), ((RESULT__RANGE_STATUS, 14), 0xD0)]"

text \<open>
  A device that answers with the expected model ID, has finished booting, and reports
  an oscillator frequency.
\<close>

definition booted_sensor :: VL53L1X where
  "booted_sensor =
     simulated_sensor
       [((IDENTIFICATION__MODEL_ID, 0), 0xEA), ((IDENTIFICATION__MODEL_ID, 1), 0xCC),
        ((FIRMWARE__SYSTEM_STATUS, 0), 0x01),
        ((OSC_MEASURED__FAST_OSC__FREQUENCY, 0), 0xBC),
        ((OSC_MEASURED__FAST_OSC__FREQUENCY, 1), 0xCC)]"

section \<open>Register access lemmas\<close>

lemma fetch_numeral [simp]:
  "fetch m r k (numeral n) = m (r, k) # fetch m r (Suc k) (pred_numeral n)"
  by (simp add: numeral_eq_Suc)

lemma fetch_1 [simp]: "fetch m r k 1 = [m (r, k)]"
  by simp

lemma readReg_eq:
  "readReg reg s =
     (dev_mem (bus s) (reg, 0),
      s\<lparr>bus := (bus s)\<lparr>dev_index := (reg, 1), rx_buffer := [],
             bus_trace := bus_trace (bus s) @ [Transmit (address s) reg [], Request (address s) 1]\<rparr>,
        last_status := dev_ack (bus s)\<rparr>)"
  by (simp add: readReg_def transmit_def requestFrom_def bus_read_def Let_def)

lemma fst_readReg [simp]: "fst (readReg reg s) = dev_mem (bus s) (reg, 0)"
  by (simp add: readReg_eq)

lemma dev_mem_readReg [simp]: "dev_mem (bus (snd (readReg reg s))) = dev_mem (bus s)"
  by (simp add: readReg_eq)

lemma dev_mem_writeReg [simp]:
  "dev_mem (bus (writeReg reg v s)) (r, i)
     = (if r = reg \<and> i = 0 then v else dev_mem (bus s) (r, i))"
  by (simp add: writeReg_def transmit_def)

lemma dev_mem_writeReg16Bit [simp]:
  "dev_mem (bus (writeReg16Bit reg v s)) (r, i)
     = (if r = reg \<and> i = 0 then ucast (drop_bit 8 v)
        else if r = reg \<and> i = 1 then ucast v
        else dev_mem (bus s) (r, i))"
  by (auto simp add: writeReg16Bit_def transmit_def less_Suc_eq numeral_2_eq_2)

lemma frequency_readReg [simp]:
  "fast_osc_frequency (snd (readReg reg s)) = fast_osc_frequency s"
  by (simp add: readReg_eq)

lemma frequency_writeReg [simp]:
  "fast_osc_frequency (writeReg reg v s) = fast_osc_frequency s"
  by (simp add: writeReg_def transmit_def)

lemma frequency_writeReg16Bit [simp]:
  "fast_osc_frequency (writeReg16Bit reg v s) = fast_osc_frequency s"
  by (simp add: writeReg16Bit_def transmit_def)

lemma calcMacroPeriod_readReg [simp]:
  "calcMacroPeriod v (snd (readReg reg s)) = calcMacroPeriod v s"
  by (simp add: calcMacroPeriod_def)

lemma calcMacroPeriod_writeReg [simp]:
  "calcMacroPeriod v (writeReg reg x s) = calcMacroPeriod v s"
  by (simp add: calcMacroPeriod_def)

lemma calcMacroPeriod_writeReg16Bit [simp]:
  "calcMacroPeriod v (writeReg16Bit reg x s) = calcMacroPeriod v s"
  by (simp add: calcMacroPeriod_def)

lemma results_readResults:
  "results (readResults s) =
     \<lparr>range_status = result_block (bus s) 0,
      stream_count = result_block (bus s) 2,
      dss_actual_effective_spads_sd0 = be16 (result_block (bus s) 3) (result_block (bus s) 4),
      ambient_count_rate_mcps_sd0 = be16 (result_block (bus s) 7) (result_block (bus s) 8),
      final_crosstalk_corrected_range_mm_sd0 =
        be16 (result_block (bus s) 13) (result_block (bus s) 14),
      peak_signal_count_rate_crosstalk_corrected_mcps_sd0 =
        be16 (result_block (bus s) 15) (result_block (bus s) 16)\<rparr>"
  by (simp add: readResults_def transmit_def requestFrom_def bus_read_def Let_def
      result_block_def be16_def eval_nat_numeral)

section \<open>Word arithmetic lemmas\<close>

lemma unat_u16_less: "unat (r :: uint16_t) < 65536"
  using unsigned_less [of r, where 'a = nat] by simp

lemma unat_ucast_u16_u32: "unat (ucast (r :: uint16_t) :: uint32_t) = unat r"
  using unat_u16_less [of r] by (simp add: unsigned_ucast_eq take_bit_nat_eq_self_iff)

lemma range_gain_unat:
  fixes r :: uint16_t
  shows "unat (ucast (((ucast r :: uint32_t) * 2011 + 0x0400) div 0x0800) :: uint16_t)
           = (unat r * 2011 + 1024) div 2048"
proof -
  have r: "unat r < 65536"
    by (rule unat_u16_less)
  have m: "unat ((ucast r :: uint32_t) * 2011 + 0x0400) = unat r * 2011 + 1024"
    using r by (simp add: unat_word_ariths unat_ucast_u16_u32)
  have d: "unat (((ucast r :: uint32_t) * 2011 + 0x0400) div 0x0800) = (unat r * 2011 + 1024) div 2048"
    by (simp add: unat_div m)
  have "(unat r * 2011 + 1024) div 2048 < 65536"
    using r by simp
  then show ?thesis
    by (simp add: unsigned_ucast_eq d take_bit_nat_eq_self_iff)
qed

lemma and_7F_iff: "(x::uint8_t) AND 0x7F = x \<longleftrightarrow> x < 0x80"
  using mask_eq_iff [of x 7] by (simp add: mask_eq_decr_exp word_less_def)

lemma nibble_low:
  fixes a b :: uint8_t
  assumes "a < 16"
  shows "(push_bit 4 b OR a) AND 0xF = a"
proof -
  have a: "take_bit 4 a = a"
    using assms by (simp add: less_mask_eq take_bit_eq_mask)
  have "take_bit 4 (push_bit 4 b OR a) = a"
    by (simp add: take_bit_push_bit a)
  then show ?thesis by (simp add: take_bit_eq_mask mask_eq_decr_exp)
qed

lemma nibble_high:
  fixes a b :: uint8_t
  assumes "a < 16" "b < 16"
  shows "drop_bit 4 (push_bit 4 b OR a) = b"
proof -
  have a: "take_bit 4 a = a"
    using assms by (simp add: less_mask_eq take_bit_eq_mask)
  have b: "take_bit 4 b = b"
    using assms by (simp add: less_mask_eq take_bit_eq_mask)
  have "drop_bit 4 (push_bit 4 (take_bit 4 b) OR take_bit 4 a) = take_bit 4 b"
    by (rule bit_word_eqI) (auto simp add: bit_simps)
  then show ?thesis by (simp add: a b)
qed

lemma pred_less_16:
  fixes w :: uint8_t
  assumes "1 \<le> w" "w \<le> 16"
  shows "w - 1 < 16"
  using assms by (simp add: word_less_nat_alt word_le_nat_alt unat_sub)

lemma size_byte_unpack:
  fixes w h :: uint8_t
  assumes "1 \<le> w" "w \<le> 16" "1 \<le> h" "h \<le> 16"
  shows "((push_bit 4 (h - 1) OR (w - 1)) AND 0xF) + 1 = w"
    and "drop_bit 4 (push_bit 4 (h - 1) OR (w - 1)) + 1 = h"
  using nibble_low [of "w - 1" "h - 1"] nibble_high [of "w - 1" "h - 1"]
    pred_less_16 [OF assms(1,2)] pred_less_16 [OF assms(3,4)]
  by simp_all

lemma roi_size_byte:
  "(word_of_int (push_bit 4 (uint h - 1) OR (uint w - 1)) :: uint8_t)
     = push_bit 4 (h - 1) OR (w - 1)"
  by (simp add: of_int_or_eq of_int_push_bit)

lemma clamp_16: "(if (w::uint8_t) > 16 then 16 else w) = min w 16"
  by (auto simp: min_def)

section \<open>Region of interest\<close>

lemma setROISize_eq:
  "setROISize width height s =
     writeReg ROI_CONFIG__USER_ROI_REQUESTED_GLOBAL_XY_SIZE
       (push_bit 4 (min height 16 - 1) OR (min width 16 - 1))
       (if min width 16 > 10 \<or> min height 16 > 10
        then writeReg ROI_CONFIG__USER_ROI_CENTRE_SPAD 199 s else s)"
  unfolding setROISize_def clamp_16 Let_def roi_size_byte by (rule refl)

lemma trace_setROISize:
  "bus_trace (bus (setROISize width height s))
     = bus_trace (bus s)
       @ (if min width 16 > 10 \<or> min height 16 > 10
          then [Transmit (address s) ROI_CONFIG__USER_ROI_CENTRE_SPAD [199]] else [])
       @ [Transmit (address s) ROI_CONFIG__USER_ROI_REQUESTED_GLOBAL_XY_SIZE
            [push_bit 4 (min height 16 - 1) OR (min width 16 - 1)]]"
  unfolding setROISize_eq by (simp add: writeReg_def transmit_def)

lemma getROISize_writeReg:
  "fst (getROISize (writeReg ROI_CONFIG__USER_ROI_REQUESTED_GLOBAL_XY_SIZE v s))
     = ((v AND 0xF) + 1, drop_bit 4 v + 1)"
  by (simp add: getROISize_def readReg_eq writeReg_def transmit_def)

text \<open>
  C9 (as amended). \<^verbatim>\<open>setROISize\<close> lowers a width or height above 16 to 16
  and has no lower clamp. When the clamped width or height exceeds 10 it first writes 199
  to the ROI centre register; then it writes the size byte
  \<open>(height - 1) << 4 | (width - 1)\<close>, computed from the clamped values and cut to
  eight bits. For a width and a height of at least 1 the size read back by
  \<^verbatim>\<open>getROISize\<close> is the clamped pair, which lies in 1..16.
\<close>

theorem setROISize_effective_size:
  "bus_trace (bus (setROISize width height s))
     = bus_trace (bus s)
       @ (if min width 16 > 10 \<or> min height 16 > 10
          then [Transmit (address s) ROI_CONFIG__USER_ROI_CENTRE_SPAD [199]] else [])
       @ [Transmit (address s) ROI_CONFIG__USER_ROI_REQUESTED_GLOBAL_XY_SIZE
            [push_bit 4 (min height 16 - 1) OR (min width 16 - 1)]]
   \<and> (1 \<le> width \<and> 1 \<le> height \<longrightarrow>
        fst (getROISize (setROISize width height s)) = (min width 16, min height 16)
        \<and> 1 \<le> min width 16 \<and> min width 16 \<le> 16
        \<and> 1 \<le> min height 16 \<and> min height 16 \<le> 16)"
proof -
  have "fst (getROISize (setROISize width height s)) = (min width 16, min height 16)
        \<and> 1 \<le> min width 16 \<and> min width 16 \<le> 16
        \<and> 1 \<le> min height 16 \<and> min height 16 \<le> 16"
    if "1 \<le> width" "1 \<le> height"
  proof -
    have w: "1 \<le> min width 16" "min width 16 \<le> 16"
      using that by (simp_all add: min_def)
    have h: "1 \<le> min height 16" "min height 16 \<le> 16"
      using that by (simp_all add: min_def)
    have "fst (getROISize (setROISize width height s)) = (min width 16, min height 16)"
      unfolding setROISize_eq getROISize_writeReg size_byte_unpack [OF w h]
      by (rule refl)
    with w h show ?thesis
      by simp
  qed
  then show ?thesis
    using trace_setROISize by blast
qed

theorem setROISize_20_3_witness:
  "bus_trace (bus (setROISize 20 3 (simulated_sensor [])))
     = [Transmit 0x29 ROI_CONFIG__USER_ROI_CENTRE_SPAD [199],
        Transmit 0x29 ROI_CONFIG__USER_ROI_REQUESTED_GLOBAL_XY_SIZE [0x2F]]
   \<and> fst (getROISize (setROISize 20 3 (simulated_sensor []))) = (16, 3)"
  using setROISize_effective_size [of 20 3 "simulated_sensor []"]
  by (simp add: simulated_sensor_def VL53L1X_new_def header0_def)

text \<open>
  A width of 0 is not raised to 1: the size byte written is 0xFF, and the size read back
  is 16 by 16, not 1 by 3.
\<close>

theorem setROISize_zero_width_counterexample:
  "bus_trace (bus (setROISize 0 3 (simulated_sensor [])))
     = [Transmit 0x29 ROI_CONFIG__USER_ROI_REQUESTED_GLOBAL_XY_SIZE [0xFF]]
   \<and> fst (getROISize (setROISize 0 3 (simulated_sensor []))) = (16, 16)
   \<and> fst (getROISize (setROISize 0 3 (simulated_sensor []))) \<noteq> (1, 3)"
proof -
  have size_byte: "push_bit 4 (min 3 16 - 1) OR (min 0 16 - 1) = (0xFF :: uint8_t)"
    by simp
  have "bus_trace (bus (setROISize 0 3 (simulated_sensor [])))
     = [Transmit 0x29 ROI_CONFIG__USER_ROI_REQUESTED_GLOBAL_XY_SIZE [0xFF]]"
    unfolding trace_setROISize size_byte
    by (simp add: simulated_sensor_def VL53L1X_new_def header0_def)
  moreover have "fst (getROISize (setROISize 0 3 (simulated_sensor []))) = (16, 16)"
    unfolding setROISize_eq getROISize_writeReg size_byte
    by simp
  ultimately show ?thesis
    by simp
qed

section \<open>Address change\<close>

text \<open>
  C10. \<^verbatim>\<open>setAddress\<close> makes one write, to the address register and at the
  old address, of the low seven bits of the new address, and stores the unmasked new
  address in the session. The stored address equals the byte programmed into the device
  exactly when the new address is below 0x80.
\<close>

theorem setAddress_register_and_session:
  "bus_trace (bus (setAddress new_addr s))
     = bus_trace (bus s) @ [Transmit (address s) I2C_SLAVE__DEVICE_ADDRESS [new_addr AND 0x7F]]
   \<and> dev_mem (bus (setAddress new_addr s)) (I2C_SLAVE__DEVICE_ADDRESS, 0) = new_addr AND 0x7F
   \<and> address (setAddress new_addr s) = new_addr
   \<and> ((address (setAddress new_addr s)
         = dev_mem (bus (setAddress new_addr s)) (I2C_SLAVE__DEVICE_ADDRESS, 0))
        = (new_addr < 0x80))"
proof -
  have "(new_addr = new_addr AND 0x7F) = (new_addr < 0x80)"
    using and_7F_iff [of new_addr] by auto
  then show ?thesis
    by (simp add: setAddress_def writeReg_def transmit_def Let_def)
qed

theorem setAddress_witness:
  "address (setAddress 0xAA (simulated_sensor [])) = 0xAA
   \<and> dev_mem (bus (setAddress 0xAA (simulated_sensor []))) (I2C_SLAVE__DEVICE_ADDRESS, 0) = 0x2A
   \<and> bus_trace (bus (setAddress 0xAA (simulated_sensor [])))
       = [Transmit 0x29 I2C_SLAVE__DEVICE_ADDRESS [0x2A]]"
  using setAddress_register_and_session [of "0xAA" "simulated_sensor []"]
  by (simp add: simulated_sensor_def VL53L1X_new_def header0_def)

section \<open>Result decoding\<close>

text \<open>
  C1. For every content of the 17-byte result block, the status that
  \<^verbatim>\<open>getRangingData\<close> derives after \<^verbatim>\<open>readResults\<close> is the one
  the table gives for the raw status byte (byte 0) and the stream count (byte 2).
\<close>

theorem getRangingData_status_table:
  "range_status_rd (ranging_data (getRangingData h (readResults s)))
     = status_table (unat (result_block (bus s) 0)) (unat (result_block (bus s) 2))"
  by (simp add: getRangingData_def Let_def results_readResults status_table_def
      word_unat_eq_iff)

theorem getRangingData_status_witness:
  "range_status_rd (ranging_data (getRangingData header0
       (readResults (simulated_sensor [((RESULT__RANGE_STATUS, 0), 9)]))))
     = RangeValidNoWrapCheckFail
   \<and> range_status_rd (ranging_data (getRangingData header0
       (readResults (simulated_sensor
          [((RESULT__RANGE_STATUS, 0), 9), ((RESULT__RANGE_STATUS, 2), 1)]))))
     = RangeValid"
  using getRangingData_status_table
          [of header0 "simulated_sensor [((RESULT__RANGE_STATUS, 0), 9)]"]
        getRangingData_status_table
          [of header0 "simulated_sensor
             [((RESULT__RANGE_STATUS, 0), 9), ((RESULT__RANGE_STATUS, 2), 1)]"]
  by (simp add: status_table_def result_block_def simulated_sensor_def VL53L1X_new_def
      device_memory_def)

lemma getRangingData_range_unat:
  "unat (range_mm (ranging_data (getRangingData h s)))
     = (unat (final_crosstalk_corrected_range_mm_sd0 (results s)) * 2011 + 1024) div 2048"
  by (simp add: getRangingData_def Let_def range_gain_unat)

text \<open>
  C2 (as amended). The corrected distance is
  \<open>(rawRangeMm * 2011 + 1024) div 2048\<close> for every raw range, without overflow or
  truncation; for a raw range of 2000 it is 1964.
\<close>

theorem getRangingData_range_mm:
  "unat (range_mm (ranging_data (getRangingData h s)))
     = (unat (final_crosstalk_corrected_range_mm_sd0 (results s)) * 2011 + 1024) div 2048
   \<and> (final_crosstalk_corrected_range_mm_sd0 (results s) = 2000
        \<longrightarrow> range_mm (ranging_data (getRangingData h s)) = 1964)"
proof -
  have "range_mm (ranging_data (getRangingData h s)) = 1964"
    if "final_crosstalk_corrected_range_mm_sd0 (results s) = 2000"
  proof -
    have "unat (range_mm (ranging_data (getRangingData h s))) = (2000 * 2011 + 1024) div 2048"
      using that by (simp add: getRangingData_range_unat)
    then have "unat (range_mm (ranging_data (getRangingData h s))) = unat (1964 :: uint16_t)"
      by simp
    then show ?thesis
      by (simp only: word_unat_eq_iff)
  qed
  then show ?thesis
    by (simp add: getRangingData_range_unat)
qed

theorem getRangingData_range_mm_witness:
  "final_crosstalk_corrected_range_mm_sd0 (results (readResults (simulated_sensor
       [((RESULT__RANGE_STATUS, 13), 0x07), ((RESULT__RANGE_STATUS, 14), 0xD0)]))) = 2000
   \<and> range_mm (ranging_data (getRangingData header0 (readResults (simulated_sensor
       [((RESULT__RANGE_STATUS, 13), 0x07), ((RESULT__RANGE_STATUS, 14), 0xD0)])))) = 1964"
proof -
  have raw: "final_crosstalk_corrected_range_mm_sd0 (results (readResults (simulated_sensor
       [((RESULT__RANGE_STATUS, 13), 0x07), ((RESULT__RANGE_STATUS, 14), 0xD0)]))) = 2000"
    by (simp add: results_readResults result_block_def be16_def simulated_sensor_def
        VL53L1X_new_def device_memory_def)
  with getRangingData_range_mm [of header0 "readResults (simulated_sensor
       [((RESULT__RANGE_STATUS, 13), 0x07), ((RESULT__RANGE_STATUS, 14), 0xD0)])"]
  show ?thesis
    by blast
qed

text \<open>The raw range 2000 does not give 1965.\<close>

theorem getRangingData_2000_counterexample:
  "final_crosstalk_corrected_range_mm_sd0 (results (readResults (simulated_sensor
       [((RESULT__RANGE_STATUS, 13), 0x07), ((RESULT__RANGE_STATUS, 14), 0xD0)]))) = 2000
   \<and> range_mm (ranging_data (getRangingData header0 (readResults (simulated_sensor
       [((RESULT__RANGE_STATUS, 13), 0x07), ((RESULT__RANGE_STATUS, 14), 0xD0)])))) \<noteq> 1965"
  by (simp add: getRangingData_def Let_def results_readResults result_block_def be16_def
      simulated_sensor_def VL53L1X_new_def device_memory_def)

section \<open>Dynamic SPAD selection\<close>

lemma unat_clip16:
  fixes t :: uint32_t
  shows "unat (if t > 0xFFFF then 0xFFFF else t) = min (unat t) 65535"
  by (simp add: word_less_nat_alt min_def)

lemma unat_shift16:
  fixes c :: uint32_t
  assumes "unat c \<le> 65535"
  shows "unat (push_bit 16 c) = unat c * 65536"
  using assms by (simp add: push_bit_eq_mult unat_word_ariths)

lemma unat_sum_u16:
  fixes a b :: uint16_t
  shows "unat ((ucast a :: uint32_t) + ucast b) = unat a + unat b"
  using unat_u16_less [of a] unat_u16_less [of b]
  by (simp add: unat_word_ariths unat_ucast_u16_u32)

lemma dss_rate_unat:
  fixes peak amb spad :: uint16_t
  shows "unat (push_bit 16 (if (ucast peak :: uint32_t) + ucast amb > 0xFFFF then 0xFFFF
                            else (ucast peak :: uint32_t) + ucast amb) div ucast spad)
         = (min (unat peak + unat amb) 65535 * 65536) div unat spad"
proof -
  let ?t = "(ucast peak :: uint32_t) + ucast amb"
  let ?c = "if ?t > 0xFFFF then 0xFFFF else ?t"
  have c: "unat ?c = min (unat peak + unat amb) 65535"
    by (simp only: unat_clip16 unat_sum_u16)
  then have "unat ?c \<le> 65535"
    by simp
  then have "unat (push_bit 16 ?c) = unat ?c * 65536"
    by (rule unat_shift16)
  then show ?thesis
    by (simp only: unat_div c unat_ucast_u16_u32)
qed

lemma dss_required_unat:
  fixes target :: uint16_t and rate :: uint32_t
  assumes "rate \<noteq> 0"
  shows "(ucast (if push_bit 16 (ucast target) div rate > 0xFFFF then 0xFFFF
                 else push_bit 16 (ucast target :: uint32_t) div rate) :: uint16_t)
         = of_nat (min ((unat target * 65536) div unat rate) 65535)"
proof -
  let ?q = "push_bit 16 (ucast target :: uint32_t) div rate"
  have "unat (ucast target :: uint32_t) \<le> 65535"
    using unat_u16_less [of target] by (simp add: unat_ucast_u16_u32)
  then have "unat (push_bit 16 (ucast target :: uint32_t)) = unat target * 65536"
    using unat_shift16 [of "ucast target"] by (simp add: unat_ucast_u16_u32)
  then have q: "unat ?q = (unat target * 65536) div unat rate"
    by (simp only: unat_div)
  have "unat (if ?q > 0xFFFF then 0xFFFF else ?q) = min ((unat target * 65536) div unat rate) 65535"
    by (simp only: unat_clip16 q)
  then have "of_nat (unat (if ?q > 0xFFFF then 0xFFFF else ?q))
      = (of_nat (min ((unat target * 65536) div unat rate) 65535) :: uint16_t)"
    by (rule arg_cong)
  then show ?thesis
    by (simp only: of_nat_unat)
qed

lemma ucast_u16_eq_0: "((ucast (x::uint16_t) :: uint32_t) = 0) = (x = 0)"
  using unat_ucast_u16_u32 [of x] by (metis unat_eq_zero)

lemma checked_div_Inr: "b \<noteq> 0 \<Longrightarrow> checked_div a b = Inr (a div b)"
  by (simp add: checked_div_def)

lemma updateDSS_eq:
  "updateDSS h s
     = Inr (writeReg16Bit DSS_CONFIG__MANUAL_EFFECTIVE_SPADS_SELECT
              (dss_required_spads h (results s)) s)"
proof (cases "dss_actual_effective_spads_sd0 (results s) = 0")
  case True
  then show ?thesis
    by (simp add: updateDSS_def Let_def dss_required_spads_def)
next
  case False
  let ?peak = "peak_signal_count_rate_crosstalk_corrected_mcps_sd0 (results s)"
  let ?amb = "ambient_count_rate_mcps_sd0 (results s)"
  let ?spad = "dss_actual_effective_spads_sd0 (results s)"
  let ?clipped = "if (ucast ?peak :: uint32_t) + ucast ?amb > 0xFFFF then 0xFFFF
                  else (ucast ?peak :: uint32_t) + ucast ?amb"
  let ?rate = "push_bit 16 ?clipped div ucast ?spad"
  let ?q = "push_bit 16 (ucast (TargetRate h) :: uint32_t) div ?rate"
  have rate: "unat ?rate = dss_total_rate_per_spad (results s)"
    by (simp only: dss_rate_unat dss_total_rate_per_spad_def)
  have "(ucast ?spad :: uint32_t) \<noteq> 0"
    using False by (simp only: ucast_u16_eq_0 not_False_eq_True)
  then have d1: "checked_div (push_bit 16 ?clipped) (ucast ?spad) = Inr ?rate"
    by (rule checked_div_Inr)
  show ?thesis
  proof (cases "?rate = 0")
    case True
    then have "dss_total_rate_per_spad (results s) = 0"
      using rate by simp
    then have "dss_required_spads h (results s) = 0x8000"
      by (simp add: dss_required_spads_def)
    then show ?thesis
      unfolding updateDSS_def Let_def d1 sum.case
      using False True by (simp only: simp_thms if_True if_False)
  next
    case nz: False
    then have "dss_total_rate_per_spad (results s) \<noteq> 0"
      using rate by (metis unat_eq_zero)
    then have "dss_required_spads h (results s)
        = of_nat (min ((unat (TargetRate h) * 65536) div unat ?rate) 65535)"
      using False by (simp add: dss_required_spads_def rate)
    then have spec: "dss_required_spads h (results s) = ucast (if ?q > 0xFFFF then 0xFFFF else ?q)"
      by (simp only: dss_required_unat [OF nz])
    have d2: "checked_div (push_bit 16 (ucast (TargetRate h))) ?rate = Inr ?q"
      using nz by (rule checked_div_Inr)
    show ?thesis
      unfolding updateDSS_def Let_def d1 sum.case d2 spec
      using False nz by (simp only: simp_thms if_True if_False sum.case)
  qed
qed

text \<open>
  C8. \<^verbatim>\<open>updateDSS\<close> never divides by zero and never fails: for every
  result buffer it makes exactly one write, to the manual effective-SPADs register, of the
  SPAD target of the specification; that target is the midpoint 0x8000 whenever the
  effective SPAD count is 0 or the total rate per SPAD is 0. The divisions of the model
  are checked, so a division by zero would show as a fault.
\<close>

theorem updateDSS_never_divides_by_zero:
  "updateDSS h s
     = Inr (writeReg16Bit DSS_CONFIG__MANUAL_EFFECTIVE_SPADS_SELECT
              (dss_required_spads h (results s)) s)
   \<and> (dss_actual_effective_spads_sd0 (results s) = 0 \<or> dss_total_rate_per_spad (results s) = 0
        \<longrightarrow> dss_required_spads h (results s) = 0x8000)
   \<and> bus_trace (bus (writeReg16Bit DSS_CONFIG__MANUAL_EFFECTIVE_SPADS_SELECT
                        (dss_required_spads h (results s)) s))
       = bus_trace (bus s)
         @ [Transmit (address s) DSS_CONFIG__MANUAL_EFFECTIVE_SPADS_SELECT
              [ucast (drop_bit 8 (dss_required_spads h (results s))),
               ucast (dss_required_spads h (results s))]]"
  by (simp add: updateDSS_eq dss_required_spads_def writeReg16Bit_def transmit_def)

theorem updateDSS_zero_spads_witness:
  "updateDSS header0 (readResults (simulated_sensor
       [((RESULT__RANGE_STATUS, 15), 0x02), ((RESULT__RANGE_STATUS, 8), 0x10)]))
     = Inr (writeReg16Bit DSS_CONFIG__MANUAL_EFFECTIVE_SPADS_SELECT 0x8000
              (readResults (simulated_sensor
                 [((RESULT__RANGE_STATUS, 15), 0x02), ((RESULT__RANGE_STATUS, 8), 0x10)])))"
proof -
  have "dss_actual_effective_spads_sd0 (results (readResults (simulated_sensor
       [((RESULT__RANGE_STATUS, 15), 0x02), ((RESULT__RANGE_STATUS, 8), 0x10)]))) = 0"
    by (simp add: results_readResults result_block_def be16_def simulated_sensor_def
        VL53L1X_new_def device_memory_def)
  with updateDSS_never_divides_by_zero [of header0 "readResults (simulated_sensor
       [((RESULT__RANGE_STATUS, 15), 0x02), ((RESULT__RANGE_STATUS, 8), 0x10)])"]
  show ?thesis
    by simp
qed

section \<open>Timeout encoding\<close>

declare encodeTimeout_loop.simps [simp del]

declare timeout_exponent.simps [simp del]

lemma not_mask_8: "(0xFFFFFF00 :: uint32_t) = NOT (mask 8)"
  by (simp add: mask_eq_decr_exp)

lemma high_bits_iff:
  fixes ls :: uint32_t
  shows "(0 < ls AND 0xFFFFFF00) = (256 \<le> unat ls)"
proof -
  have "(ls AND NOT (mask 8) = 0) = (ls AND mask 8 = ls)"
    by (auto simp add: bit_eq_iff bit_simps)
  also have "\<dots> = (uint ls < 2 ^ 8)"
    by (rule mask_eq_iff)
  also have "\<dots> = (unat ls < 256)"
  proof -
    have "uint ls = int (unat ls)"
      by (rule uint_nat)
    moreover have "(2::int) ^ 8 = 256"
      by simp
    ultimately show ?thesis
      by linarith
  qed
  finally have "(ls AND 0xFFFFFF00 = 0) = (unat ls < 256)"
    unfolding not_mask_8 [symmetric] .
  then show ?thesis
    unfolding word_gt_0 by auto
qed

lemma encodeTimeout_loop_unat:
  "unat ls < 2 ^ (32 - unat ms) \<Longrightarrow> unat ms \<le> 24 \<Longrightarrow>
     (case encodeTimeout_loop ls ms of
        (l, m) \<Rightarrow> unat l < 256 \<and> unat m \<le> 24 \<and> unat ms \<le> unat m
                  \<and> unat l = unat ls div 2 ^ (unat m - unat ms))"
proof (induction ls ms rule: encodeTimeout_loop.induct)
  case (1 ls_byte ms_byte)
  show ?case
  proof (cases "256 \<le> unat ls_byte")
    case False
    then have "encodeTimeout_loop ls_byte ms_byte = (ls_byte, ms_byte)"
      by (simp add: encodeTimeout_loop.simps [of ls_byte ms_byte] high_bits_iff)
    then show ?thesis
      using False "1.prems"(2) by simp
  next
    case True
    have lt: "unat ms_byte < 24"
    proof (rule ccontr)
      assume "\<not> unat ms_byte < 24"
      with "1.prems"(2) have e: "unat ms_byte = 24"
        by simp
      have "unat ls_byte < 2 ^ (32 - unat ms_byte)"
        by (rule "1.prems"(1))
      then have "unat ls_byte < 2 ^ 8"
        unfolding e by simp
      then show False
        using True by simp
    qed
    then have ms: "unat (ms_byte + 1) = unat ms_byte + 1"
      by (simp add: unat_word_ariths)
    have ls: "unat (drop_bit 1 ls_byte) = unat ls_byte div 2"
      by (simp add: drop_bit_eq_div unat_div)
    have "32 - unat ms_byte = Suc (32 - (unat ms_byte + 1))"
      using lt by simp
    then have "2 ^ (32 - unat ms_byte) = (2::nat) * 2 ^ (32 - (unat ms_byte + 1))"
      by simp
    then have p1: "unat (drop_bit 1 ls_byte) < 2 ^ (32 - unat (ms_byte + 1))"
      using "1.prems" ls ms by simp
    have p2: "unat (ms_byte + 1) \<le> 24"
      using lt ms by simp
    have c: "0 < ls_byte AND 0xFFFFFF00"
      using True by (simp add: high_bits_iff)
    note IH = "1.IH" [OF c p1 p2]
    obtain l m where lm: "encodeTimeout_loop (drop_bit 1 ls_byte) (ms_byte + 1) = (l, m)"
      by (cases "encodeTimeout_loop (drop_bit 1 ls_byte) (ms_byte + 1)")
    then have eq: "encodeTimeout_loop ls_byte ms_byte = (l, m)"
      using c by (simp add: encodeTimeout_loop.simps [of ls_byte ms_byte])
    from IH lm have a: "unat l < 256" "unat m \<le> 24" "unat ms_byte + 1 \<le> unat m"
      "unat l = unat ls_byte div 2 div 2 ^ (unat m - (unat ms_byte + 1))"
      by (simp_all add: ms ls ls [unfolded One_nat_def])
    have "unat ls_byte div 2 div 2 ^ (unat m - (unat ms_byte + 1))
        = unat ls_byte div 2 ^ (unat m - unat ms_byte)"
    proof -
      have "unat m - unat ms_byte = Suc (unat m - (unat ms_byte + 1))"
        using a(3) by simp
      then show ?thesis
        by (simp add: div_mult2_eq)
    qed
    with a(1,2,4) have "unat l < 256 \<and> unat m \<le> 24 \<and> unat ms_byte \<le> unat m
        \<and> unat l = unat ls_byte div 2 ^ (unat m - unat ms_byte)"
      using a(3) by simp
    then show ?thesis
      unfolding eq by simp
  qed
qed

lemma take_bit_8_unat:
  fixes w :: "'a::len word"
  assumes "unat w < 256"
  shows "take_bit 8 w = w"
proof -
  have "uint w = int (unat w)"
    by (rule uint_nat)
  moreover have "(2::int) ^ 8 = 256"
    by simp
  ultimately have "uint w < 2 ^ 8"
    using assms by linarith
  then have "w AND mask 8 = w"
    by (simp only: mask_eq_iff)
  then show ?thesis
    by (simp only: take_bit_eq_mask)
qed

lemma timeout_reg_unpack:
  fixes l :: uint32_t and m :: uint16_t
  assumes "unat l < 256" "unat m < 256"
  shows "drop_bit 8 (ucast (push_bit 8 (ucast m :: uint32_t) OR (l AND 0xFF)) :: uint16_t) = m"
    and "(ucast ((ucast (push_bit 8 (ucast m :: uint32_t) OR (l AND 0xFF)) :: uint16_t) AND 0xFF) :: uint32_t) = l"
proof -
  have l: "take_bit 8 l = l"
    using assms(1) by (rule take_bit_8_unat)
  have m: "take_bit 8 m = m"
    using assms(2) by (rule take_bit_8_unat)
  have ff32: "(0xFF :: uint32_t) = mask 8" and ff16: "(0xFF :: uint16_t) = mask 8"
    by (simp_all add: mask_eq_decr_exp)
  have "drop_bit 8 (ucast (push_bit 8 (ucast (take_bit 8 m) :: uint32_t) OR (take_bit 8 l AND mask 8)) :: uint16_t)
      = take_bit 8 m"
    by (rule bit_word_eqI) (auto simp add: bit_simps)
  then show "drop_bit 8 (ucast (push_bit 8 (ucast m :: uint32_t) OR (l AND 0xFF)) :: uint16_t) = m"
    unfolding l m ff32 .
  have "(ucast ((ucast (push_bit 8 (ucast m :: uint32_t) OR (take_bit 8 l AND mask 8)) :: uint16_t) AND mask 8) :: uint32_t)
      = take_bit 8 l"
    by (rule bit_word_eqI) (auto simp add: bit_simps)
  then show "(ucast ((ucast (push_bit 8 (ucast m :: uint32_t) OR (l AND 0xFF)) :: uint16_t) AND 0xFF) :: uint32_t) = l"
    unfolding l ff32 ff16 .
qed

lemma encodeTimeout_loop_small:
  "unat ls < 256 \<Longrightarrow> encodeTimeout_loop ls ms = (ls, ms)"
  by (simp add: encodeTimeout_loop.simps [of ls ms] high_bits_iff)

lemma unat_push_bit_small:
  fixes l :: uint32_t
  assumes "unat l * 2 ^ k < 2 ^ 32"
  shows "unat (push_bit k l) = unat l * 2 ^ k"
proof -
  have "unat (push_bit k l) = take_bit 32 (push_bit k (unat l))"
    by (simp add: unsigned_push_bit_eq)
  also have "\<dots> = take_bit 32 (unat l * 2 ^ k)"
    by (simp add: push_bit_eq_mult)
  also have "\<dots> = unat l * 2 ^ k"
    using assms by (simp add: take_bit_nat_eq_self_iff)
  finally show ?thesis .
qed

lemma decode_encode:
  fixes t :: uint32_t
  assumes "t \<noteq> 0"
  shows "\<exists>d. decodeTimeout (encodeTimeout t) = Inr d
           \<and> unat (drop_bit 8 (encodeTimeout t)) \<le> 24
           \<and> unat d = (unat t - 1) div 2 ^ unat (drop_bit 8 (encodeTimeout t))
                         * 2 ^ unat (drop_bit 8 (encodeTimeout t)) + 1"
proof -
  obtain l m where lm: "encodeTimeout_loop (t - 1) 0 = (l, m)"
    by (cases "encodeTimeout_loop (t - 1) 0")
  have t1: "unat (t - 1) = unat t - 1"
    using assms by (simp add: unat_minus_one)
  have tpos: "0 < unat t"
    using assms by (simp add: unat_gt_0)
  have tlt: "unat t < 2 ^ 32"
    using unsigned_less [of t, where 'a = nat] by simp
  have "unat (t - 1) < 2 ^ (32 - unat (0 :: uint16_t))"
    using tlt t1 by simp
  moreover have "unat (0 :: uint16_t) \<le> 24"
    by simp
  ultimately have inv: "case encodeTimeout_loop (t - 1) 0 of
        (l, m) \<Rightarrow> unat l < 256 \<and> unat m \<le> 24 \<and> unat (0 :: uint16_t) \<le> unat m
                  \<and> unat l = unat (t - 1) div 2 ^ (unat m - unat (0 :: uint16_t))"
    by (rule encodeTimeout_loop_unat)
  then have l: "unat l < 256" and m: "unat m \<le> 24"
    and lv: "unat l = (unat t - 1) div 2 ^ unat m"
    by (simp_all add: lm t1)
  let ?reg = "ucast (push_bit 8 (ucast m :: uint32_t) OR (l AND 0xFF)) :: uint16_t"
  have enc: "encodeTimeout t = ?reg"
    using assms by (simp add: encodeTimeout_def lm word_gt_0)
  have m256: "unat m < 256"
    using m by simp
  have hi: "drop_bit 8 ?reg = m" and lo: "(ucast (?reg AND 0xFF) :: uint32_t) = l"
    using timeout_reg_unpack [OF l m256] by simp_all
  have small: "unat l * 2 ^ unat m \<le> unat t - 1"
    unfolding lv by simp
  then have "unat l * 2 ^ unat m < 2 ^ 32"
    using tlt by simp
  then have pb: "unat (push_bit (unat m) l) = unat l * 2 ^ unat m"
    by (rule unat_push_bit_small)
  have "unat (push_bit (unat m) l) + unat (1 :: uint32_t) < 2 ^ LENGTH(32)"
    using small tlt tpos pb by simp
  then have "unat (push_bit (unat m) l + 1) = unat (push_bit (unat m) l) + unat (1 :: uint32_t)"
    by (simp only: unat_add_lem)
  then have d: "unat (push_bit (unat m) l + 1) = (unat t - 1) div 2 ^ unat m * 2 ^ unat m + 1"
    by (simp add: pb lv)
  have "decodeTimeout ?reg = Inr (push_bit (unat m) l + 1)"
    unfolding decodeTimeout_def hi lo using m by simp
  then show ?thesis
    unfolding enc hi using m d by simp
qed

lemma timeout_exponent_least:
  "n div 2 ^ timeout_exponent n < 256 \<and> (\<forall>k<timeout_exponent n. 256 \<le> n div 2 ^ k)"
proof (induction n rule: timeout_exponent.induct)
  case (1 n)
  show ?case
  proof (cases "n < 256")
    case True
    then show ?thesis
      by (simp add: timeout_exponent.simps [of n])
  next
    case False
    then have e: "timeout_exponent n = Suc (timeout_exponent (n div 2))"
      by (simp add: timeout_exponent.simps [of n])
    note IH = "1.IH" [OF False]
    have a: "n div 2 ^ Suc (timeout_exponent (n div 2)) < 256"
      using IH by (simp add: div_mult2_eq)
    have b: "256 \<le> n div 2 ^ k" if "k < Suc (timeout_exponent (n div 2))" for k
    proof (cases k)
      case 0
      then show ?thesis
        using False by simp
    next
      case (Suc j)
      then have "j < timeout_exponent (n div 2)"
        using that by simp
      then have "256 \<le> n div 2 div 2 ^ j"
        using IH by simp
      then show ?thesis
        unfolding Suc by (simp add: div_mult2_eq)
    qed
    from a b show ?thesis
      unfolding e by blast
  qed
qed

lemma timeout_exponent_zero: "(timeout_exponent n = 0) = (n < 256)"
  by (simp add: timeout_exponent.simps [of n])

lemma encodeTimeout_loop_exponent:
  "unat ls < 2 ^ (32 - unat ms) \<Longrightarrow> unat ms \<le> 24 \<Longrightarrow>
     unat (snd (encodeTimeout_loop ls ms)) = unat ms + timeout_exponent (unat ls)"
proof (induction ls ms rule: encodeTimeout_loop.induct)
  case (1 ls_byte ms_byte)
  show ?case
  proof (cases "256 \<le> unat ls_byte")
    case False
    then have "encodeTimeout_loop ls_byte ms_byte = (ls_byte, ms_byte)"
      by (simp add: encodeTimeout_loop.simps [of ls_byte ms_byte] high_bits_iff)
    then show ?thesis
      using False by (simp add: timeout_exponent.simps [of "unat ls_byte"])
  next
    case True
    have lt: "unat ms_byte < 24"
    proof (rule ccontr)
      assume "\<not> unat ms_byte < 24"
      with "1.prems"(2) have e: "unat ms_byte = 24"
        by simp
      have "unat ls_byte < 2 ^ (32 - unat ms_byte)"
        by (rule "1.prems"(1))
      then have "unat ls_byte < 2 ^ 8"
        unfolding e by simp
      then show False
        using True by simp
    qed
    then have ms: "unat (ms_byte + 1) = unat ms_byte + 1"
      by (simp add: unat_word_ariths)
    have ls: "unat (drop_bit 1 ls_byte) = unat ls_byte div 2"
      by (simp add: drop_bit_eq_div unat_div)
    have "32 - unat ms_byte = Suc (32 - (unat ms_byte + 1))"
      using lt by simp
    then have "2 ^ (32 - unat ms_byte) = (2::nat) * 2 ^ (32 - (unat ms_byte + 1))"
      by simp
    then have p1: "unat (drop_bit 1 ls_byte) < 2 ^ (32 - unat (ms_byte + 1))"
      using "1.prems" ls ms by simp
    have p2: "unat (ms_byte + 1) \<le> 24"
      using lt ms by simp
    have c: "0 < ls_byte AND 0xFFFFFF00"
      using True by (simp add: high_bits_iff)
    have "unat (snd (encodeTimeout_loop (drop_bit 1 ls_byte) (ms_byte + 1)))
        = unat (ms_byte + 1) + timeout_exponent (unat (drop_bit 1 ls_byte))"
      using c p1 p2 by (rule "1.IH")
    moreover have "encodeTimeout_loop ls_byte ms_byte
        = encodeTimeout_loop (drop_bit 1 ls_byte) (ms_byte + 1)"
      using c by (simp add: encodeTimeout_loop.simps [of ls_byte ms_byte])
    moreover have "timeout_exponent (unat ls_byte) = Suc (timeout_exponent (unat ls_byte div 2))"
      using True by (simp add: timeout_exponent.simps [of "unat ls_byte"])
    ultimately show ?thesis
      by (simp add: ms ls ls [unfolded One_nat_def])
  qed
qed

lemma unat_bytes_u16:
  fixes w :: uint16_t
  shows "unat w = 256 * unat (drop_bit 8 w) + unat (w AND 0xFF)"
proof -
  have "(0xFF :: uint16_t) = mask 8"
    by (simp add: mask_eq_decr_exp)
  then have "unat (w AND 0xFF) = unat (take_bit 8 w)"
    by (simp only: take_bit_eq_mask)
  also have "\<dots> = take_bit 8 (unat w)"
    by (rule unsigned_take_bit_eq)
  also have "\<dots> = unat w mod 256"
    by (simp add: take_bit_eq_mod)
  finally have lo: "unat (w AND 0xFF) = unat w mod 256" .
  have hi: "unat (drop_bit 8 w) = unat w div 256"
    by (simp add: drop_bit_eq_div unat_div)
  show ?thesis
    unfolding lo hi by simp
qed

lemma encodeTimeout_fields:
  fixes t :: uint32_t
  assumes "t \<noteq> 0"
  shows "unat (drop_bit 8 (encodeTimeout t)) = timeout_exponent (unat t - 1)"
    and "unat (encodeTimeout t AND 0xFF) = (unat t - 1) div 2 ^ timeout_exponent (unat t - 1)"
    and "timeout_exponent (unat t - 1) \<le> 24"
proof -
  obtain l m where lm: "encodeTimeout_loop (t - 1) 0 = (l, m)"
    by (cases "encodeTimeout_loop (t - 1) 0")
  have t1: "unat (t - 1) = unat t - 1"
    using assms by (simp add: unat_minus_one)
  have tlt: "unat t < 2 ^ 32"
    using unsigned_less [of t, where 'a = nat] by simp
  have h1: "unat (t - 1) < 2 ^ (32 - unat (0 :: uint16_t))"
    using tlt t1 by simp
  have h2: "unat (0 :: uint16_t) \<le> 24"
    by simp
  from h1 h2 have inv: "case encodeTimeout_loop (t - 1) 0 of
        (l, m) \<Rightarrow> unat l < 256 \<and> unat m \<le> 24 \<and> unat (0 :: uint16_t) \<le> unat m
                  \<and> unat l = unat (t - 1) div 2 ^ (unat m - unat (0 :: uint16_t))"
    by (rule encodeTimeout_loop_unat)
  then have l: "unat l < 256" and m: "unat m \<le> 24"
    and lv: "unat l = (unat t - 1) div 2 ^ unat m"
    by (simp_all add: lm t1)
  have "unat (snd (encodeTimeout_loop (t - 1) 0))
      = unat (0 :: uint16_t) + timeout_exponent (unat (t - 1))"
    using h1 h2 by (rule encodeTimeout_loop_exponent)
  then have me: "unat m = timeout_exponent (unat t - 1)"
    by (simp add: lm t1)
  let ?reg = "ucast (push_bit 8 (ucast m :: uint32_t) OR (l AND 0xFF)) :: uint16_t"
  have enc: "encodeTimeout t = ?reg"
    using assms by (simp add: encodeTimeout_def lm word_gt_0)
  have m256: "unat m < 256"
    using m by simp
  have hi: "drop_bit 8 ?reg = m" and lo: "(ucast (?reg AND 0xFF) :: uint32_t) = l"
    using timeout_reg_unpack [OF l m256] by simp_all
  show "unat (drop_bit 8 (encodeTimeout t)) = timeout_exponent (unat t - 1)"
    unfolding enc hi by (rule me)
  have "unat (?reg AND 0xFF) = unat (ucast (?reg AND 0xFF) :: uint32_t)"
    by (simp only: unat_ucast_u16_u32)
  also have "\<dots> = unat l"
    by (simp only: lo)
  finally show "unat (encodeTimeout t AND 0xFF) = (unat t - 1) div 2 ^ timeout_exponent (unat t - 1)"
    unfolding enc using lv me by simp
  show "timeout_exponent (unat t - 1) \<le> 24"
    using m me by simp
qed

lemma decode_encode_exponent:
  fixes t :: uint32_t
  assumes "t \<noteq> 0"
  shows "\<exists>d. decodeTimeout (encodeTimeout t) = Inr d
           \<and> unat d = (unat t - 1) div 2 ^ timeout_exponent (unat t - 1)
                         * 2 ^ timeout_exponent (unat t - 1) + 1"
  using decode_encode [OF assms] unfolding encodeTimeout_fields(1) [OF assms] by blast

lemma timeout_exponent_999: "timeout_exponent 999 = 2"
  by (simp add: timeout_exponent.simps)

text \<open>
  C5 (as amended). Input 0 encodes to 0, which decodes to 1. For every nonzero
  \<open>mclks\<close>, let \<open>e\<close> be the smallest exponent such that
  \<open>mclks - 1\<close> shifted right by \<open>e\<close> fits in 8 bits; it is at most 24, and
  it is 0 exactly when \<open>mclks\<close> is at most 256. The encoding holds \<open>e\<close>
  in its high byte and the shifted value, the mantissa, in its low byte, and it decodes
  without a fault to \<open>mantissa * 2 ^ e + 1\<close>: a value that is at most
  \<open>mclks\<close> and below it by the \<open>e\<close> low bits of \<open>mclks - 1\<close>
  that the shift drops. So the round trip returns \<open>mclks\<close> exactly when
  \<open>mclks\<close> has the form \<open>mantissa * 2 ^ e + 1\<close>, which every value from 1
  to 256 has.
\<close>

theorem timeout_round_trip:
  fixes mclks :: uint32_t
  shows
  "encodeTimeout 0 = 0 \<and> decodeTimeout (encodeTimeout 0) = Inr 1
   \<and> (mclks \<noteq> 0 \<longrightarrow>
        (let n = unat mclks - 1; e = timeout_exponent n
         in e \<le> 24 \<and> n div 2 ^ e < 256 \<and> (\<forall>k<e. 256 \<le> n div 2 ^ k)
            \<and> (e = 0) = (mclks \<le> 256)
            \<and> unat (drop_bit 8 (encodeTimeout mclks)) = e
            \<and> unat (encodeTimeout mclks AND 0xFF) = n div 2 ^ e
            \<and> unat (encodeTimeout mclks) = 256 * e + n div 2 ^ e
            \<and> (\<exists>d. decodeTimeout (encodeTimeout mclks) = Inr d
                  \<and> unat d = n div 2 ^ e * 2 ^ e + 1
                  \<and> d \<le> mclks \<and> unat mclks - unat d = n mod 2 ^ e)
            \<and> (decodeTimeout (encodeTimeout mclks) = Inr mclks)
                = (unat mclks = n div 2 ^ e * 2 ^ e + 1)))
   \<and> (1 \<le> mclks \<and> mclks \<le> 256 \<longrightarrow> decodeTimeout (encodeTimeout mclks) = Inr mclks)"
proof -
  have zero: "encodeTimeout 0 = 0" "decodeTimeout (encodeTimeout 0) = Inr 1"
    by (simp_all add: encodeTimeout_def decodeTimeout_def)
  define n where "n = unat mclks - 1"
  define e where "e = timeout_exponent n"
  have general: "e \<le> 24 \<and> n div 2 ^ e < 256 \<and> (\<forall>k<e. 256 \<le> n div 2 ^ k)
            \<and> (e = 0) = (mclks \<le> 256)
            \<and> unat (drop_bit 8 (encodeTimeout mclks)) = e
            \<and> unat (encodeTimeout mclks AND 0xFF) = n div 2 ^ e
            \<and> unat (encodeTimeout mclks) = 256 * e + n div 2 ^ e
            \<and> (\<exists>d. decodeTimeout (encodeTimeout mclks) = Inr d
                  \<and> unat d = n div 2 ^ e * 2 ^ e + 1
                  \<and> d \<le> mclks \<and> unat mclks - unat d = n mod 2 ^ e)
            \<and> (decodeTimeout (encodeTimeout mclks) = Inr mclks)
                = (unat mclks = n div 2 ^ e * 2 ^ e + 1)"
    if nz: "mclks \<noteq> 0"
  proof -
    have pos: "0 < unat mclks"
      using nz by (simp add: unat_gt_0)
    then have n1: "unat mclks = n + 1"
      by (simp add: n_def)
    have hi: "unat (drop_bit 8 (encodeTimeout mclks)) = e"
      and lo: "unat (encodeTimeout mclks AND 0xFF) = n div 2 ^ e"
      and e24: "e \<le> 24"
      using encodeTimeout_fields [OF nz] by (simp_all add: e_def n_def)
    have least: "n div 2 ^ e < 256" "\<forall>k<e. 256 \<le> n div 2 ^ k"
      using timeout_exponent_least [of n] by (simp_all add: e_def)
    have "(e = 0) = (n < 256)"
      unfolding e_def by (rule timeout_exponent_zero)
    also have "\<dots> = (unat mclks \<le> 256)"
      using n1 by arith
    also have "\<dots> = (mclks \<le> 256)"
      by (simp add: word_le_nat_alt)
    finally have e0: "(e = 0) = (mclks \<le> 256)" .
    have whole: "unat (encodeTimeout mclks) = 256 * e + n div 2 ^ e"
      using unat_bytes_u16 [of "encodeTimeout mclks"] by (simp only: hi lo)
    obtain d where d: "decodeTimeout (encodeTimeout mclks) = Inr d"
      and v: "unat d = n div 2 ^ e * 2 ^ e + 1"
      using decode_encode_exponent [OF nz] unfolding n_def [symmetric] e_def [symmetric]
      by blast
    define q where "q = n div 2 ^ e * 2 ^ e"
    have vq: "unat d = q + 1"
      using v by (simp only: q_def)
    have split: "q + n mod 2 ^ e = n"
      unfolding q_def by (rule div_mult_mod_eq)
    have le: "unat d \<le> unat mclks"
      using vq split n1 by linarith
    have loss: "unat mclks - unat d = n mod 2 ^ e"
      using vq split n1 by linarith
    have "(decodeTimeout (encodeTimeout mclks) = Inr mclks) = (d = mclks)"
      using d by auto
    also have "\<dots> = (unat mclks = unat d)"
      by (auto simp add: word_unat_eq_iff)
    finally have exact: "(decodeTimeout (encodeTimeout mclks) = Inr mclks)
        = (unat mclks = n div 2 ^ e * 2 ^ e + 1)"
      by (simp only: v)
    have "\<exists>d. decodeTimeout (encodeTimeout mclks) = Inr d
           \<and> unat d = n div 2 ^ e * 2 ^ e + 1
           \<and> d \<le> mclks \<and> unat mclks - unat d = n mod 2 ^ e"
      using d v le loss by (auto simp add: word_le_nat_alt)
    with e24 least e0 hi lo whole exact show ?thesis
      by blast
  qed
  have small: "decodeTimeout (encodeTimeout mclks) = Inr mclks"
    if r: "1 \<le> mclks" "mclks \<le> 256"
  proof -
    have nz: "mclks \<noteq> 0"
      using r(1) by auto
    from general [OF nz] r(2) have "e = 0"
      and "(decodeTimeout (encodeTimeout mclks) = Inr mclks)
             = (unat mclks = n div 2 ^ e * 2 ^ e + 1)"
      by blast+
    moreover have "unat mclks = n + 1"
      using nz by (simp add: n_def unat_gt_0)
    ultimately show ?thesis
      by simp
  qed
  from zero general small show ?thesis
    unfolding Let_def n_def [symmetric] e_def [symmetric] by blast
qed

theorem timeout_round_trip_witness:
  "(1000 :: uint32_t) \<noteq> 0 \<and> timeout_exponent 999 = 2
   \<and> unat (encodeTimeout 1000) = 0x02F9
   \<and> (\<exists>d. decodeTimeout (encodeTimeout 1000) = Inr d \<and> unat d = 997)
   \<and> decodeTimeout (encodeTimeout 1000) \<noteq> Inr 1000"
proof -
  have n: "unat (1000 :: uint32_t) - 1 = 999"
    by simp
  have nz: "(1000 :: uint32_t) \<noteq> 0"
    by simp
  note e = timeout_exponent_999
  have "unat (encodeTimeout 1000) = 256 * 2 + 999 div 2 ^ 2"
    and "\<exists>d. decodeTimeout (encodeTimeout 1000) = Inr d \<and> unat d = 999 div 2 ^ 2 * 2 ^ 2 + 1"
    and "(decodeTimeout (encodeTimeout 1000) = Inr 1000)
           = (unat (1000 :: uint32_t) = 999 div 2 ^ 2 * 2 ^ 2 + 1)"
    using timeout_round_trip [of 1000] nz unfolding Let_def n e by blast+
  then show ?thesis
    using e by simp
qed

text \<open>258 is nonzero and does not survive the round trip: it comes back as 257.\<close>

theorem timeout_round_trip_counterexample:
  "decodeTimeout (encodeTimeout 258) = Inr 257"
  by (simp add: decodeTimeout_def encodeTimeout_def encodeTimeout_loop.simps)

section \<open>Timing budget\<close>

lemma setMeasurementTimingBudget_reject:
  "budget_us \<le> TimingGuard h \<or> 1100000 < budget_us - TimingGuard h \<Longrightarrow>
     setMeasurementTimingBudget h budget_us s = Inr (False, s)"
  by (auto simp add: setMeasurementTimingBudget_def Let_def)

lemma bind_not_False:
  "(\<And>v. f v \<noteq> Inr (False, s')) \<Longrightarrow>
     (case x of Inl e \<Rightarrow> Inl e | Inr v \<Rightarrow> f v) \<noteq> Inr (False, s')"
  by (cases x) simp_all

lemma setMeasurementTimingBudget_not_False:
  assumes "\<not> budget_us \<le> TimingGuard h" "\<not> 1100000 < budget_us - TimingGuard h"
  shows "setMeasurementTimingBudget h budget_us s \<noteq> Inr (False, s')"
  using assms
  by (simp add: setMeasurementTimingBudget_def Let_def split_beta bind_not_False)

lemma timeoutMicrosecondsToMclks_Inr:
  "mp \<noteq> 0 \<Longrightarrow> \<exists>v. timeoutMicrosecondsToMclks us mp = Inr v"
  by (simp add: timeoutMicrosecondsToMclks_def checked_div_def)

lemma setMeasurementTimingBudget_accept:
  assumes "\<not> budget_us \<le> TimingGuard h" "\<not> 1100000 < budget_us - TimingGuard h"
    and "macro_periods_nonzero s"
  shows "\<exists>s'. setMeasurementTimingBudget h budget_us s = Inr (True, s')"
proof -
  obtain mpa mpb where
    a: "calcMacroPeriod (dev_mem (bus s) (RANGE_CONFIG__VCSEL_PERIOD_A, 0)) s = Inr mpa" "mpa \<noteq> 0"
    and b: "calcMacroPeriod (dev_mem (bus s) (RANGE_CONFIG__VCSEL_PERIOD_B, 0)) s = Inr mpb" "mpb \<noteq> 0"
    using assms(3) by (auto simp add: macro_periods_nonzero_def split: sum.splits)
  show ?thesis
    using assms(1,2) a b
    by (simp add: setMeasurementTimingBudget_def Let_def split_beta
        timeoutMicrosecondsToMclks_def checked_div_def)
qed

text \<open>
  C4 (as amended). \<^verbatim>\<open>setMeasurementTimingBudget\<close> returns false, leaving
  the driver and the bus untouched, exactly when \<open>budgetUs \<le> TimingGuard\<close> or
  the budget minus the guard exceeds 1,100,000 microseconds (the comparison is made
  before the halving). For every other budget it never returns false, and it returns true
  whenever the stored oscillator frequency and both macro periods are nonzero, which the
  divisions it makes require.
\<close>

theorem setMeasurementTimingBudget_rejection:
  "(setMeasurementTimingBudget h budget_us s = Inr (False, s))
      = (budget_us \<le> TimingGuard h \<or> 1100000 < budget_us - TimingGuard h)
   \<and> (\<forall>s'. setMeasurementTimingBudget h budget_us s = Inr (False, s') \<longrightarrow> s' = s)
   \<and> (\<not> (budget_us \<le> TimingGuard h \<or> 1100000 < budget_us - TimingGuard h)
        \<and> macro_periods_nonzero s
        \<longrightarrow> (\<exists>s'. setMeasurementTimingBudget h budget_us s = Inr (True, s')))"
proof (cases "budget_us \<le> TimingGuard h \<or> 1100000 < budget_us - TimingGuard h")
  case True
  then have "setMeasurementTimingBudget h budget_us s = Inr (False, s)"
    by (rule setMeasurementTimingBudget_reject)
  with True show ?thesis
    by simp
next
  case False
  then have g: "\<not> budget_us \<le> TimingGuard h" "\<not> 1100000 < budget_us - TimingGuard h"
    by simp_all
  have "setMeasurementTimingBudget h budget_us s \<noteq> Inr (False, s')" for s'
    using g by (rule setMeasurementTimingBudget_not_False)
  moreover have "\<exists>s'. setMeasurementTimingBudget h budget_us s = Inr (True, s')"
    if "macro_periods_nonzero s"
    using g that by (rule setMeasurementTimingBudget_accept)
  ultimately show ?thesis
    using False by blast
qed

lemma long_range_macro_periods: "macro_periods_nonzero long_range_sensor"
  by (simp add: macro_periods_nonzero_def long_range_sensor_def simulated_sensor_def
      VL53L1X_new_def device_memory_def calcMacroPeriod_def checked_div_def)

theorem setMeasurementTimingBudget_witness:
  "setMeasurementTimingBudget header0 4528 long_range_sensor = Inr (False, long_range_sensor)
   \<and> (\<exists>s'. setMeasurementTimingBudget header0 50000 long_range_sensor = Inr (True, s'))"
  using setMeasurementTimingBudget_rejection [of header0 4528 long_range_sensor]
    setMeasurementTimingBudget_rejection [of header0 50000 long_range_sensor]
    long_range_macro_periods
  by (simp add: header0_def)

text \<open>
  With a guard of 4528, the budget 1104529 leaves 1100001 after the guard, which halves
  to 550000: the halved timeout does not exceed 550,000, and the budget is rejected. And
  an accepted budget does not make the function return true on a sensor whose oscillator
  frequency was never read: the macro period calculation divides by zero.
\<close>

theorem setMeasurementTimingBudget_counterexample:
  "setMeasurementTimingBudget header0 1104529 long_range_sensor = Inr (False, long_range_sensor)
   \<and> \<not> 1104529 \<le> TimingGuard header0
   \<and> \<not> 550000 < (1104529 - TimingGuard header0) div 2
   \<and> setMeasurementTimingBudget header0 50000 (simulated_sensor []) = Inl DivisionByZero"
proof -
  have "fast_osc_frequency (simulated_sensor []) = 0"
    by (simp add: simulated_sensor_def VL53L1X_new_def)
  then have "setMeasurementTimingBudget header0 50000 (simulated_sensor []) = Inl DivisionByZero"
    by (simp add: setMeasurementTimingBudget_def Let_def split_beta calcMacroPeriod_def
        checked_div_def header0_def)
  then show ?thesis
    by (simp add: setMeasurementTimingBudget_def header0_def)
qed

section \<open>Non-blocking read\<close>

lemma readResults_eq:
  "readResults s =
     s\<lparr>bus := (bus s)\<lparr>dev_index := (RESULT__RANGE_STATUS, 17), rx_buffer := [],
            bus_trace := bus_trace (bus s)
              @ [Transmit (address s) RESULT__RANGE_STATUS [], Request (address s) 17]\<rparr>,
       last_status := dev_ack (bus s),
       results :=
         \<lparr>range_status = result_block (bus s) 0,
          stream_count = result_block (bus s) 2,
          dss_actual_effective_spads_sd0 = be16 (result_block (bus s) 3) (result_block (bus s) 4),
          ambient_count_rate_mcps_sd0 = be16 (result_block (bus s) 7) (result_block (bus s) 8),
          final_crosstalk_corrected_range_mm_sd0 =
            be16 (result_block (bus s) 13) (result_block (bus s) 14),
          peak_signal_count_rate_crosstalk_corrected_mcps_sd0 =
            be16 (result_block (bus s) 15) (result_block (bus s) 16)\<rparr>\<rparr>"
  by (simp add: readResults_def transmit_def requestFrom_def bus_read_def Let_def
      result_block_def be16_def eval_nat_numeral)

lemma writeReg_fields [simp]:
  "address (writeReg reg v s) = address s"
  "calibrated (writeReg reg v s) = calibrated s"
  "did_timeout (writeReg reg v s) = did_timeout s"
  "results (writeReg reg v s) = results s"
  "ranging_data (writeReg reg v s) = ranging_data s"
  "distance_mode (writeReg reg v s) = distance_mode s"
  "dev_ack (bus (writeReg reg v s)) = dev_ack (bus s)"
  "bus_trace (bus (writeReg reg v s)) = bus_trace (bus s) @ [Transmit (address s) reg [v]]"
  by (simp_all add: writeReg_def transmit_def)

lemma writeReg16Bit_fields [simp]:
  "address (writeReg16Bit reg w s) = address s"
  "calibrated (writeReg16Bit reg w s) = calibrated s"
  "did_timeout (writeReg16Bit reg w s) = did_timeout s"
  "results (writeReg16Bit reg w s) = results s"
  "ranging_data (writeReg16Bit reg w s) = ranging_data s"
  "distance_mode (writeReg16Bit reg w s) = distance_mode s"
  "dev_ack (bus (writeReg16Bit reg w s)) = dev_ack (bus s)"
  "bus_trace (bus (writeReg16Bit reg w s))
     = bus_trace (bus s) @ [Transmit (address s) reg [ucast (drop_bit 8 w), ucast w]]"
  by (simp_all add: writeReg16Bit_def transmit_def)

lemma readReg_fields [simp]:
  "address (snd (readReg reg s)) = address s"
  "calibrated (snd (readReg reg s)) = calibrated s"
  "did_timeout (snd (readReg reg s)) = did_timeout s"
  "results (snd (readReg reg s)) = results s"
  "ranging_data (snd (readReg reg s)) = ranging_data s"
  "distance_mode (snd (readReg reg s)) = distance_mode s"
  "dev_ack (bus (snd (readReg reg s))) = dev_ack (bus s)"
  "bus_trace (bus (snd (readReg reg s)))
     = bus_trace (bus s) @ [Transmit (address s) reg [], Request (address s) 1]"
  by (simp_all add: readReg_eq)

lemma getRangingData_fields [simp]:
  "bus (getRangingData h s) = bus s"
  "address (getRangingData h s) = address s"
  "calibrated (getRangingData h s) = calibrated s"
  "did_timeout (getRangingData h s) = did_timeout s"
  "results (getRangingData h s) = results s"
  by (simp_all add: getRangingData_def Let_def)

lemma readResults_fields [simp]:
  "address (readResults s) = address s"
  "calibrated (readResults s) = calibrated s"
  "did_timeout (readResults s) = did_timeout s"
  "dev_mem (bus (readResults s)) = dev_mem (bus s)"
  "bus_trace (bus (readResults s))
     = bus_trace (bus s) @ [Transmit (address s) RESULT__RANGE_STATUS [], Request (address s) 17]"
  by (simp_all add: readResults_eq)

lemma setupManualCalibration_trace:
  "bus_trace (bus (setupManualCalibration s))
     = bus_trace (bus s) @ calibration_events (address s) (dev_mem (bus s))"
  by (simp add: setupManualCalibration_def Let_def split_beta readReg_eq writeReg_def
      transmit_def calibration_events_def)

lemma setupManualCalibration_fields:
  "address (setupManualCalibration s) = address s"
  "did_timeout (setupManualCalibration s) = did_timeout s"
  "results (setupManualCalibration s) = results s"
  by (simp_all add: setupManualCalibration_def Let_def split_beta readReg_eq writeReg_def
      transmit_def)

lemma read_nonblocking:
  "\<exists>s'. read h False s = Some (Inr (range_mm (ranging_data s'), s'))
     \<and> bus_trace (bus s')
         = bus_trace (bus s)
           @ [Transmit (address s) RESULT__RANGE_STATUS [], Request (address s) 17]
           @ (if calibrated s then [] else calibration_events (address s) (dev_mem (bus s)))
           @ [Transmit (address s) DSS_CONFIG__MANUAL_EFFECTIVE_SPADS_SELECT
                [ucast (drop_bit 8 (dss_required_spads h (results (readResults s)))),
                 ucast (dss_required_spads h (results (readResults s)))],
              Transmit (address s) SYSTEM__INTERRUPT_CLEAR [0x01]]
     \<and> unat (range_mm (ranging_data s'))
         = (unat (be16 (result_block (bus s) 13) (result_block (bus s) 14)) * 2011 + 1024)
             div 2048
     \<and> calibrated s' \<and> did_timeout s' = did_timeout s"
proof -
  define s1 where "s1 = readResults s"
  define s2 where "s2 = (if \<not> calibrated s1
                          then (setupManualCalibration s1)\<lparr>calibrated := True\<rparr> else s1)"
  define s3 where "s3 = writeReg16Bit DSS_CONFIG__MANUAL_EFFECTIVE_SPADS_SELECT
                          (dss_required_spads h (results s2)) s2"
  define s5 where "s5 = writeReg SYSTEM__INTERRUPT_CLEAR 0x01 (getRangingData h s3)"
  have r: "read h False s = Some (Inr (range_mm (ranging_data s5), s5))"
    by (simp add: read_def Let_def updateDSS_eq s1_def s2_def s3_def s5_def)
  have s2: "address s2 = address s" "did_timeout s2 = did_timeout s" "calibrated s2"
    "results s2 = results s1"
    "bus_trace (bus s2) = bus_trace (bus s)
       @ [Transmit (address s) RESULT__RANGE_STATUS [], Request (address s) 17]
       @ (if calibrated s then [] else calibration_events (address s) (dev_mem (bus s)))"
    by (simp_all add: s2_def s1_def setupManualCalibration_trace setupManualCalibration_fields)
  have t: "bus_trace (bus s5) = bus_trace (bus s2)
       @ [Transmit (address s) DSS_CONFIG__MANUAL_EFFECTIVE_SPADS_SELECT
            [ucast (drop_bit 8 (dss_required_spads h (results s1))),
             ucast (dss_required_spads h (results s1))],
          Transmit (address s) SYSTEM__INTERRUPT_CLEAR [0x01]]"
    by (simp add: s5_def s3_def s2)
  have f: "calibrated s5" "did_timeout s5 = did_timeout s"
    by (simp_all add: s5_def s3_def s2)
  have "unat (range_mm (ranging_data s5))
      = (unat (final_crosstalk_corrected_range_mm_sd0 (results s1)) * 2011 + 1024) div 2048"
    using getRangingData_range_unat [of h s3] by (simp add: s5_def s3_def s2)
  then have g: "unat (range_mm (ranging_data s5))
      = (unat (be16 (result_block (bus s) 13) (result_block (bus s) 14)) * 2011 + 1024) div 2048"
    by (simp add: s1_def results_readResults)
  show ?thesis
    using r t f g s2(5) unfolding s1_def by (intro exI [of _ s5]) simp
qed

text \<open>
  C7 (as amended). \<^verbatim>\<open>read\<close> with \<open>blocking = false\<close> makes no
  data-ready check at all. Whatever the device holds, it returns without a fault, having
  fetched the result block, set up the manual calibration if the session was not yet
  calibrated, written the DSS target and cleared the interrupt, in this order; the value
  it returns is the corrected distance of the block it fetched, and the sticky timeout
  flag is left as it was.
\<close>

theorem read_nonblocking_always_fetches:
  "\<exists>s'. read h False s = Some (Inr (range_mm (ranging_data s'), s'))
     \<and> bus_trace (bus s')
         = bus_trace (bus s)
           @ [Transmit (address s) RESULT__RANGE_STATUS [], Request (address s) 17]
           @ (if calibrated s then [] else calibration_events (address s) (dev_mem (bus s)))
           @ [Transmit (address s) DSS_CONFIG__MANUAL_EFFECTIVE_SPADS_SELECT
                [ucast (drop_bit 8 (dss_required_spads h (results (readResults s)))),
                 ucast (dss_required_spads h (results (readResults s)))],
              Transmit (address s) SYSTEM__INTERRUPT_CLEAR [0x01]]
     \<and> unat (range_mm (ranging_data s'))
         = (unat (be16 (result_block (bus s) 13) (result_block (bus s) 14)) * 2011 + 1024)
             div 2048
     \<and> calibrated s' \<and> did_timeout s' = did_timeout s"
  by (rule read_nonblocking)

theorem read_nonblocking_witness:
  "\<exists>s'. read header0 False idle_sensor = Some (Inr (1964, s'))
      \<and> calibrated s'
      \<and> last (bus_trace (bus s')) = Transmit 0x29 SYSTEM__INTERRUPT_CLEAR [0x01]"
proof -
  obtain s' where r: "read header0 False idle_sensor = Some (Inr (range_mm (ranging_data s'), s'))"
    and t: "bus_trace (bus s')
         = bus_trace (bus idle_sensor)
           @ [Transmit (address idle_sensor) RESULT__RANGE_STATUS [], Request (address idle_sensor) 17]
           @ (if calibrated idle_sensor then []
              else calibration_events (address idle_sensor) (dev_mem (bus idle_sensor)))
           @ [Transmit (address idle_sensor) DSS_CONFIG__MANUAL_EFFECTIVE_SPADS_SELECT
                [ucast (drop_bit 8 (dss_required_spads header0 (results (readResults idle_sensor)))),
                 ucast (dss_required_spads header0 (results (readResults idle_sensor)))],
              Transmit (address idle_sensor) SYSTEM__INTERRUPT_CLEAR [0x01]]"
    and u: "unat (range_mm (ranging_data s'))
         = (unat (be16 (result_block (bus idle_sensor) 13) (result_block (bus idle_sensor) 14)) * 2011 + 1024)
             div 2048"
    and c: "calibrated s'"
    using read_nonblocking_always_fetches [of header0 idle_sensor] by blast
  have "be16 (result_block (bus idle_sensor) 13) (result_block (bus idle_sensor) 14) = 2000"
    by (simp add: idle_sensor_def result_block_def be16_def simulated_sensor_def VL53L1X_new_def
        device_memory_def)
  then have "unat (range_mm (ranging_data s')) = 1964"
    using u by simp
  then have "range_mm (ranging_data s') = 1964"
    by (simp add: word_unat_eq_iff)
  moreover have "address idle_sensor = 0x29"
    by (simp add: idle_sensor_def simulated_sensor_def VL53L1X_new_def header0_def)
  ultimately show ?thesis
    using r t c by (intro exI [of _ s']) simp
qed

text \<open>
  With no data ready, the non-blocking read still returns a distance (1964, not 0), marks
  the session calibrated and ends by clearing the interrupt.
\<close>

theorem read_nonblocking_counterexample:
  "fst (dataReady idle_sensor) = False
   \<and> (case read header0 False idle_sensor of
        Some (Inr (r, s')) \<Rightarrow>
          r = 1964 \<and> calibrated s'
          \<and> last (bus_trace (bus s')) = Transmit 0x29 SYSTEM__INTERRUPT_CLEAR [0x01]
      | Some (Inl e) \<Rightarrow> False
      | None \<Rightarrow> False)"
proof -
  obtain s' where r: "read header0 False idle_sensor = Some (Inr (range_mm (ranging_data s'), s'))"
    and t: "bus_trace (bus s')
         = bus_trace (bus idle_sensor)
           @ [Transmit (address idle_sensor) RESULT__RANGE_STATUS [], Request (address idle_sensor) 17]
           @ (if calibrated idle_sensor then []
              else calibration_events (address idle_sensor) (dev_mem (bus idle_sensor)))
           @ [Transmit (address idle_sensor) DSS_CONFIG__MANUAL_EFFECTIVE_SPADS_SELECT
                [ucast (drop_bit 8 (dss_required_spads header0 (results (readResults idle_sensor)))),
                 ucast (dss_required_spads header0 (results (readResults idle_sensor)))],
              Transmit (address idle_sensor) SYSTEM__INTERRUPT_CLEAR [0x01]]"
    and u: "unat (range_mm (ranging_data s'))
         = (unat (be16 (result_block (bus idle_sensor) 13) (result_block (bus idle_sensor) 14)) * 2011 + 1024)
             div 2048"
    and c: "calibrated s'"
    using read_nonblocking [of header0 idle_sensor] by blast
  have "be16 (result_block (bus idle_sensor) 13) (result_block (bus idle_sensor) 14) = 2000"
    by (simp add: idle_sensor_def result_block_def be16_def simulated_sensor_def VL53L1X_new_def
        device_memory_def)
  then have "unat (range_mm (ranging_data s')) = 1964"
    using u by simp
  then have v: "range_mm (ranging_data s') = 1964"
    by (simp add: word_unat_eq_iff)
  have a: "address idle_sensor = 0x29"
    by (simp add: idle_sensor_def simulated_sensor_def VL53L1X_new_def header0_def)
  have "fst (dataReady idle_sensor) = False"
    by (simp add: dataReady_def split_beta idle_sensor_def simulated_sensor_def VL53L1X_new_def
        device_memory_def)
  then show ?thesis
    using r t c v a by simp
qed

section \<open>Distance mode\<close>

lemma be16_bytes: "be16 (ucast (drop_bit 8 v)) (ucast v) = v"
  unfolding be16_def by (rule bit_word_eqI) (auto simp add: bit_simps)

lemma readReg16Bit_eq:
  "readReg16Bit reg s =
     (be16 (dev_mem (bus s) (reg, 0)) (dev_mem (bus s) (reg, 1)),
      s\<lparr>bus := (bus s)\<lparr>dev_index := (reg, 2), rx_buffer := [],
             bus_trace := bus_trace (bus s) @ [Transmit (address s) reg [], Request (address s) 2]\<rparr>,
        last_status := dev_ack (bus s)\<rparr>)"
  by (simp add: readReg16Bit_def transmit_def requestFrom_def bus_read_def Let_def be16_def
      eval_nat_numeral)

lemma fst_readReg16Bit [simp]:
  "fst (readReg16Bit reg s) = be16 (dev_mem (bus s) (reg, 0)) (dev_mem (bus s) (reg, 1))"
  by (simp add: readReg16Bit_eq)

text \<open>The budget that the registers of a device encode, for a given oscillator frequency.\<close>

lemma getMeasurementTimingBudget_value:
  assumes "calcMacroPeriod (dev_mem (bus s) (RANGE_CONFIG__VCSEL_PERIOD_A, 0)) s = Inr mp"
    and "decodeTimeout (be16 (dev_mem (bus s) (RANGE_CONFIG__TIMEOUT_MACROP_A, 0))
                             (dev_mem (bus s) (RANGE_CONFIG__TIMEOUT_MACROP_A, 1))) = Inr d"
  shows "\<exists>s'. getMeasurementTimingBudget h s
           = Inr (2 * timeoutMclksToMicroseconds d mp + TimingGuard h, s')"
  using assms by (simp add: getMeasurementTimingBudget_def Let_def split_beta)

lemma getMeasurementTimingBudget_state:
  assumes "getMeasurementTimingBudget h s = Inr (b, s1)"
  shows "dev_mem (bus s1) = dev_mem (bus s)" "fast_osc_frequency s1 = fast_osc_frequency s"
  using assms
  by (auto simp add: getMeasurementTimingBudget_def Let_def split_beta readReg16Bit_eq
      split: sum.splits)

lemma distance_mode_registers_Some:
  assumes "mode \<noteq> Unknown"
  shows "\<exists>s'. distance_mode_registers mode s = Some s'
           \<and> dev_mem (bus s') (RANGE_CONFIG__VCSEL_PERIOD_A, 0) = vcsel_period_a mode
           \<and> dev_mem (bus s') (RANGE_CONFIG__VCSEL_PERIOD_B, 0) = vcsel_period_b mode
           \<and> fast_osc_frequency s' = fast_osc_frequency s"
  using assms
  by (cases mode) (simp_all add: distance_mode_registers_def Let_def vcsel_period_a_def
      vcsel_period_b_def)

lemma setMeasurementTimingBudget_range_a:
  assumes "\<not> budget_us \<le> TimingGuard h" "\<not> 1100000 < budget_us - TimingGuard h"
    and a: "calcMacroPeriod (dev_mem (bus s) (RANGE_CONFIG__VCSEL_PERIOD_A, 0)) s = Inr mpa" "mpa \<noteq> 0"
    and b: "calcMacroPeriod (dev_mem (bus s) (RANGE_CONFIG__VCSEL_PERIOD_B, 0)) s = Inr mpb" "mpb \<noteq> 0"
  shows "\<exists>s' mclks. setMeasurementTimingBudget h budget_us s = Inr (True, s')
           \<and> timeoutMicrosecondsToMclks ((budget_us - TimingGuard h) div 2) mpa = Inr mclks
           \<and> be16 (dev_mem (bus s') (RANGE_CONFIG__TIMEOUT_MACROP_A, 0))
                   (dev_mem (bus s') (RANGE_CONFIG__TIMEOUT_MACROP_A, 1)) = encodeTimeout mclks
           \<and> dev_mem (bus s') (RANGE_CONFIG__VCSEL_PERIOD_A, 0)
               = dev_mem (bus s) (RANGE_CONFIG__VCSEL_PERIOD_A, 0)
           \<and> fast_osc_frequency s' = fast_osc_frequency s"
  using assms
  by (simp add: setMeasurementTimingBudget_def Let_def split_beta
      timeoutMicrosecondsToMclks_def checked_div_def be16_bytes)

lemma calcMacroPeriod_frequency:
  "fast_osc_frequency s' = fast_osc_frequency s \<Longrightarrow>
     calcMacroPeriod v s' = calcMacroPeriod v s"
  by (simp add: calcMacroPeriod_def)

lemma decode_encode_total: "\<exists>d. decodeTimeout (encodeTimeout t) = Inr d"
proof (cases "t = 0")
  case True
  then show ?thesis
    by (simp add: encodeTimeout_def decodeTimeout_def)
next
  case False
  then show ?thesis
    using decode_encode [of t] by blast
qed

lemma setDistanceMode_budget:
  assumes mode: "mode \<noteq> Unknown"
    and before: "getMeasurementTimingBudget h s = Inr (budget_us, s1)"
    and range: "TimingGuard h < budget_us" "budget_us - TimingGuard h \<le> 1100000"
    and a: "calcMacroPeriod (vcsel_period_a mode) s = Inr mpa" "mpa \<noteq> 0"
    and b: "calcMacroPeriod (vcsel_period_b mode) s = Inr mpb" "mpb \<noteq> 0"
  shows "\<exists>s2 mclks d s3.
           setDistanceMode h mode s = Inr (True, s2) \<and> distance_mode s2 = mode
           \<and> timeoutMicrosecondsToMclks ((budget_us - TimingGuard h) div 2) mpa = Inr mclks
           \<and> decodeTimeout (encodeTimeout mclks) = Inr d
           \<and> getMeasurementTimingBudget h s2
               = Inr (2 * timeoutMclksToMicroseconds d mpa + TimingGuard h, s3)"
proof -
  have f1: "fast_osc_frequency s1 = fast_osc_frequency s"
    using before by (rule getMeasurementTimingBudget_state)
  obtain sm where sm: "distance_mode_registers mode s1 = Some sm"
    and va: "dev_mem (bus sm) (RANGE_CONFIG__VCSEL_PERIOD_A, 0) = vcsel_period_a mode"
    and vb: "dev_mem (bus sm) (RANGE_CONFIG__VCSEL_PERIOD_B, 0) = vcsel_period_b mode"
    and fm: "fast_osc_frequency sm = fast_osc_frequency s1"
    using distance_mode_registers_Some [OF mode, of s1] by blast
  have fs: "fast_osc_frequency sm = fast_osc_frequency s"
    using fm f1 by simp
  have a': "calcMacroPeriod (dev_mem (bus sm) (RANGE_CONFIG__VCSEL_PERIOD_A, 0)) sm = Inr mpa"
    unfolding va using a(1) calcMacroPeriod_frequency [OF fs] by simp
  have b': "calcMacroPeriod (dev_mem (bus sm) (RANGE_CONFIG__VCSEL_PERIOD_B, 0)) sm = Inr mpb"
    unfolding vb using b(1) calcMacroPeriod_frequency [OF fs] by simp
  have g: "\<not> budget_us \<le> TimingGuard h" "\<not> 1100000 < budget_us - TimingGuard h"
    using range by (simp_all add: not_le not_less)
  obtain s' mclks where set: "setMeasurementTimingBudget h budget_us sm = Inr (True, s')"
    and mclks: "timeoutMicrosecondsToMclks ((budget_us - TimingGuard h) div 2) mpa = Inr mclks"
    and reg: "be16 (dev_mem (bus s') (RANGE_CONFIG__TIMEOUT_MACROP_A, 0))
                   (dev_mem (bus s') (RANGE_CONFIG__TIMEOUT_MACROP_A, 1)) = encodeTimeout mclks"
    and va': "dev_mem (bus s') (RANGE_CONFIG__VCSEL_PERIOD_A, 0)
               = dev_mem (bus sm) (RANGE_CONFIG__VCSEL_PERIOD_A, 0)"
    and f': "fast_osc_frequency s' = fast_osc_frequency sm"
    using setMeasurementTimingBudget_range_a [OF g a' a(2) b' b(2)] by blast
  define s2 where "s2 = s'\<lparr>distance_mode := mode\<rparr>"
  have res: "setDistanceMode h mode s = Inr (True, s2)"
    by (simp add: setDistanceMode_def before sm set s2_def)
  obtain d where d: "decodeTimeout (encodeTimeout mclks) = Inr d"
    using decode_encode_total by blast
  have f2: "fast_osc_frequency s2 = fast_osc_frequency s"
    using f' fs by (simp add: s2_def)
  have "calcMacroPeriod (dev_mem (bus s2) (RANGE_CONFIG__VCSEL_PERIOD_A, 0)) s2 = Inr mpa"
    using a(1) calcMacroPeriod_frequency [OF f2] va' va by (simp add: s2_def)
  moreover have "decodeTimeout (be16 (dev_mem (bus s2) (RANGE_CONFIG__TIMEOUT_MACROP_A, 0))
                             (dev_mem (bus s2) (RANGE_CONFIG__TIMEOUT_MACROP_A, 1))) = Inr d"
    using reg d by (simp add: s2_def)
  ultimately obtain s3 where "getMeasurementTimingBudget h s2
      = Inr (2 * timeoutMclksToMicroseconds d mpa + TimingGuard h, s3)"
    using getMeasurementTimingBudget_value by blast
  with res mclks d show ?thesis
    by (auto simp add: s2_def)
qed

lemma long_range_frequency: "fast_osc_frequency long_range_sensor = 0xBCCC"
  by (simp add: long_range_sensor_def)

lemma long_range_memory:
  "dev_mem (bus long_range_sensor) (RANGE_CONFIG__VCSEL_PERIOD_A, 0) = 0x0F"
  "dev_mem (bus long_range_sensor) (RANGE_CONFIG__TIMEOUT_MACROP_A, 0) = 0x00"
  "dev_mem (bus long_range_sensor) (RANGE_CONFIG__TIMEOUT_MACROP_A, 1) = 0xE8"
  "dev_mem (bus long_range_sensor) (RANGE_CONFIG__TIMEOUT_MACROP_A, Suc 0) = 0xE8"
  by (simp_all add: long_range_sensor_def simulated_sensor_def VL53L1X_new_def device_memory_def)

lemma long_range_macro_period:
  "calcMacroPeriod 0x0F long_range_sensor = Inr 399870"
  "calcMacroPeriod 0x07 long_range_sensor = Inr 199935"
  "calcMacroPeriod 0x05 long_range_sensor = Inr 149951"
  by (simp_all add: calcMacroPeriod_def checked_div_def long_range_frequency)

lemma long_range_budget:
  "\<exists>s1. getMeasurementTimingBudget header0 long_range_sensor = Inr (50022, s1)"
proof -
  have "decodeTimeout (be16 (dev_mem (bus long_range_sensor) (RANGE_CONFIG__TIMEOUT_MACROP_A, 0))
          (dev_mem (bus long_range_sensor) (RANGE_CONFIG__TIMEOUT_MACROP_A, 1))) = Inr 233"
    by (simp add: long_range_memory be16_def decodeTimeout_def)
  moreover have "calcMacroPeriod (dev_mem (bus long_range_sensor) (RANGE_CONFIG__VCSEL_PERIOD_A, 0))
      long_range_sensor = Inr 399870"
    by (simp add: long_range_memory long_range_macro_period)
  ultimately obtain s1 where "getMeasurementTimingBudget header0 long_range_sensor
      = Inr (2 * timeoutMclksToMicroseconds 233 399870 + TimingGuard header0, s1)"
    using getMeasurementTimingBudget_value by blast
  then show ?thesis
    by (simp add: timeoutMclksToMicroseconds_def header0_def)
qed

lemma short_mode_round_trip:
  "timeoutMicrosecondsToMclks ((50022 - TimingGuard header0) div 2) 199935 = Inr 466"
  "decodeTimeout (encodeTimeout 466) = Inr 465"
  "2 * timeoutMclksToMicroseconds 465 199935 + TimingGuard header0 = 49924"
  by (simp_all add: timeoutMicrosecondsToMclks_def checked_div_def header0_def
      decodeTimeout_def encodeTimeout_def encodeTimeout_loop.simps
      timeoutMclksToMicroseconds_def)

lemma calcMacroPeriod_bound:
  assumes "calcMacroPeriod v s = Inr mp"
  shows "unat mp < 2 ^ 26"
proof -
  have b: "unat (drop_bit 6 x) < 2 ^ 26" for x :: uint32_t
  proof -
    have "unat x < 2 ^ 32"
      using unsigned_less [of x, where 'a = nat] by simp
    then show ?thesis
      by (simp add: drop_bit_eq_div unat_div)
  qed
  obtain x where "mp = drop_bit 6 x"
    using assms by (auto simp add: calcMacroPeriod_def checked_div_def Let_def split: if_splits)
  then show ?thesis
    using b by simp
qed

lemma timeoutMicrosecondsToMclks_unat:
  assumes t: "unat t \<le> 550000" and mp: "unat mp < 2 ^ 26" "mp \<noteq> 0"
  shows "\<exists>m. timeoutMicrosecondsToMclks t mp = Inr m
           \<and> unat m = (4096 * unat t + unat mp div 2) div unat mp"
proof -
  have "unat t * 2 ^ 12 < 2 ^ 32"
    using t by simp
  then have p: "unat (push_bit 12 t) = unat t * 2 ^ 12"
    by (rule unat_push_bit_small)
  have h: "unat (drop_bit 1 mp) = unat mp div 2"
    by (simp add: drop_bit_eq_div unat_div)
  have "unat (push_bit 12 t) + unat (drop_bit 1 mp) < 2 ^ LENGTH(32)"
    using t mp(1) unfolding p h by simp
  then have "unat (push_bit 12 t + drop_bit 1 mp) = unat (push_bit 12 t) + unat (drop_bit 1 mp)"
    by (simp only: unat_add_lem)
  then have s: "unat (push_bit 12 t + drop_bit 1 mp) = 4096 * unat t + unat mp div 2"
    unfolding p h by simp
  have "timeoutMicrosecondsToMclks t mp = Inr ((push_bit 12 t + drop_bit 1 mp) div mp)"
    using mp(2) by (simp add: timeoutMicrosecondsToMclks_def checked_div_def)
  moreover have "unat ((push_bit 12 t + drop_bit 1 mp) div mp)
      = (4096 * unat t + unat mp div 2) div unat mp"
    by (simp only: unat_div s)
  ultimately show ?thesis
    by blast
qed

lemma unat_ucast_u32_u64: "unat (ucast (r :: uint32_t) :: uint64_t) = unat r"
proof -
  have "unat r < 2 ^ 32"
    using unsigned_less [of r, where 'a = nat] by simp
  then show ?thesis
    by (simp add: unsigned_ucast_eq take_bit_nat_eq_self_iff)
qed

lemma timeoutMclksToMicroseconds_unat:
  assumes "unat d * unat mp + 2048 < 2 ^ 44"
  shows "unat (timeoutMclksToMicroseconds d mp) = (unat d * unat mp + 2048) div 4096"
proof -
  let ?x = "(ucast d :: uint64_t) * ucast mp + 0x800"
  have "unat ((ucast d :: uint64_t) * ucast mp) = (unat d * unat mp) mod 2 ^ 64"
    by (simp add: unat_word_ariths unat_ucast_u32_u64)
  also have "\<dots> = unat d * unat mp"
    using assms by simp
  finally have m: "unat ((ucast d :: uint64_t) * ucast mp) = unat d * unat mp" .
  have "unat ((ucast d :: uint64_t) * ucast mp) + unat (0x800 :: uint64_t) < 2 ^ LENGTH(64)"
    unfolding m using assms by simp
  then have "unat ?x = unat ((ucast d :: uint64_t) * ucast mp) + unat (0x800 :: uint64_t)"
    by (simp only: unat_add_lem)
  then have x: "unat ?x = unat d * unat mp + 2048"
    unfolding m by simp
  have dx: "unat (drop_bit 12 ?x) = (unat d * unat mp + 2048) div 4096"
    by (simp only: drop_bit_eq_div unat_div x) simp
  have "(unat d * unat mp + 2048) div 4096 < 2 ^ 32"
    using assms by simp
  then have "unat (ucast (drop_bit 12 ?x) :: uint32_t) = (unat d * unat mp + 2048) div 4096"
    unfolding dx [symmetric] by (simp add: unsigned_ucast_eq take_bit_nat_eq_self_iff)
  then show ?thesis
    by (simp only: timeoutMclksToMicroseconds_def)
qed

lemma decode_encode_loss:
  assumes "decodeTimeout (encodeTimeout m) = Inr d"
  shows "m = 0 \<Longrightarrow> d = 1"
    and "m \<noteq> 0 \<Longrightarrow> unat d \<le> unat m \<and> unat m - unat d \<le> (unat m - 1) div 128"
proof -
  show "d = 1" if "m = 0"
    using assms that by (simp add: encodeTimeout_def decodeTimeout_def)
  show "unat d \<le> unat m \<and> unat m - unat d \<le> (unat m - 1) div 128" if nz: "m \<noteq> 0"
  proof -
    define n where "n = unat m - 1"
    define e where "e = timeout_exponent n"
    have n1: "unat m = n + 1"
      using nz by (simp add: n_def unat_gt_0)
    have v: "unat d = n div 2 ^ e * 2 ^ e + 1"
      using decode_encode_exponent [OF nz] assms unfolding n_def [symmetric] e_def [symmetric]
      by auto
    define q where "q = n div 2 ^ e * 2 ^ e"
    have vq: "unat d = q + 1"
      using v by (simp only: q_def)
    have split: "q + n mod 2 ^ e = n"
      unfolding q_def by (rule div_mult_mod_eq)
    have r: "n mod 2 ^ e \<le> n div 128"
    proof (cases e)
      case 0
      then show ?thesis
        by simp
    next
      case (Suc j)
      have "j < timeout_exponent n"
        using Suc by (simp add: e_def)
      then have "256 \<le> n div 2 ^ j"
        using timeout_exponent_least [of n] by blast
      then have "256 * 2 ^ j \<le> n"
        by (simp add: less_eq_div_iff_mult_less_eq)
      then have "128 * 2 ^ e \<le> n"
        unfolding Suc by simp
      then have "2 ^ e \<le> n div 128"
        by (simp add: less_eq_div_iff_mult_less_eq mult.commute)
      moreover have "n mod 2 ^ e < 2 ^ e"
        by simp
      ultimately show ?thesis
        by linarith
    qed
    show ?thesis
      using vq split n1 r unfolding n_def [symmetric] by linarith
  qed
qed

lemma reapplied_timeout_bounds:
  fixes t M m d u :: nat
  assumes M: "0 < M"
    and m: "m = (4096 * t + M div 2) div M"
    and d0: "m = 0 \<Longrightarrow> d = 1"
    and d1: "m \<noteq> 0 \<Longrightarrow> d \<le> m \<and> m - d \<le> (m - 1) div 128"
    and u: "u = (d * M + 2048) div 4096"
  shows "u \<le> t + M div 4096 + 1" and "t \<le> u + t div 128 + M div 4096 + 3"
    and "d * M \<le> 4096 * t + M"
proof -
  have x1: "m * M \<le> 4096 * t + M div 2"
    unfolding m by (rule div_times_less_eq_dividend)
  have x2: "4096 * t + M div 2 < M + m * M"
    unfolding m using M by (simp add: dividend_less_div_times)
  have u1: "4096 * u \<le> d * M + 2048"
    unfolding u by simp
  have u2: "d * M + 2048 < 4096 + 4096 * u"
    unfolding u by (simp add: dividend_less_times_div)
  show "d * M \<le> 4096 * t + M"
  proof (cases "m = 0")
    case True
    then show ?thesis
      using d0 by simp
  next
    case False
    then have "d * M \<le> m * M"
      using d1 by simp
    then show ?thesis
      using x1 by linarith
  qed
  show "u \<le> t + M div 4096 + 1"
  proof (cases "m = 0")
    case True
    then have "d * M = M"
      using d0 by simp
    then show ?thesis
      using u1 by linarith
  next
    case False
    then have "d * M \<le> m * M"
      using d1 by simp
    then show ?thesis
      using x1 u1 by linarith
  qed
  show "t \<le> u + t div 128 + M div 4096 + 3"
  proof (cases "m = 0")
    case True
    then show ?thesis
      using x2 by simp
  next
    case False
    define k where "k = (m - 1) div 128"
    have k1: "128 * k \<le> m - 1"
      unfolding k_def by simp
    have "m \<le> d + k"
      using d1 [OF False] unfolding k_def by linarith
    then have "m * M \<le> (d + k) * M"
      by (rule mult_le_mono1)
    then have y: "m * M \<le> d * M + k * M"
      by (simp add: add_mult_distrib)
    have "128 * k * M \<le> (m - 1) * M"
      using k1 by (rule mult_le_mono1)
    also have "\<dots> = m * M - M"
      by (simp add: diff_mult_distrib)
    finally have "128 * (k * M) \<le> m * M - M"
      by (simp only: mult.assoc)
    moreover have "M \<le> m * M"
      using False by simp
    ultimately have z: "128 * (k * M) + M \<le> m * M"
      by linarith
    show ?thesis
      using x2 u2 y z by linarith
  qed
qed

lemma reapplied_budget_bounds:
  fixes budget_us g mpa mclks d :: uint32_t
  assumes range: "g < budget_us" "budget_us - g \<le> 1100000"
    and mpa: "unat mpa < 2 ^ 26" "mpa \<noteq> 0"
    and mclks: "timeoutMicrosecondsToMclks ((budget_us - g) div 2) mpa = Inr mclks"
    and d: "decodeTimeout (encodeTimeout mclks) = Inr d"
    and b: "budget' = 2 * timeoutMclksToMicroseconds d mpa + g"
  shows "unat (budget' - g) \<le> unat (budget_us - g) + unat mpa div 2048 + 2"
    and "unat (budget_us - g) \<le> unat (budget' - g) + unat (budget_us - g) div 128
                                    + unat mpa div 2048 + 7"
    and "unat g < 2 ^ 31 \<Longrightarrow> unat budget' \<le> unat budget_us + unat mpa div 2048 + 2"
    and "unat g < 2 ^ 31 \<Longrightarrow> unat budget_us \<le> unat budget' + unat (budget_us - g) div 128
                                    + unat mpa div 2048 + 7"
proof -
  define T where "T = unat (budget_us - g)"
  define t where "t = unat ((budget_us - g) div 2)"
  define M where "M = unat mpa"
  define u where "u = (unat d * M + 2048) div 4096"
  have T: "T \<le> 1100000"
    using range(2) by (simp add: T_def word_le_nat_alt)
  have tT: "t = T div 2"
    by (simp add: t_def T_def unat_div)
  have t: "t \<le> 550000"
    using T tT by simp
  have M: "0 < M" "M < 2 ^ 26"
    using mpa by (simp_all add: M_def unat_gt_0)
  obtain m' where "timeoutMicrosecondsToMclks ((budget_us - g) div 2) mpa = Inr m'"
    and "unat m' = (4096 * t + M div 2) div M"
    using timeoutMicrosecondsToMclks_unat [OF t [unfolded t_def] mpa]
    unfolding t_def M_def by blast
  then have m: "unat mclks = (4096 * t + M div 2) div M"
    using mclks by simp
  have d0: "unat d = 1" if "unat mclks = 0"
  proof -
    have "mclks = 0"
      using that by (simp add: unat_eq_0)
    then have "d = 1"
      using d by (rule decode_encode_loss(1) [rotated])
    then show ?thesis
      by simp
  qed
  have d1: "unat d \<le> unat mclks \<and> unat mclks - unat d \<le> (unat mclks - 1) div 128"
    if "unat mclks \<noteq> 0"
  proof -
    have "mclks \<noteq> 0"
      using that by auto
    then show ?thesis
      using d by (rule decode_encode_loss(2) [rotated])
  qed
  note bounds = reapplied_timeout_bounds [OF M(1) m d0 d1 u_def]
  have "unat d * M + 2048 < 2 ^ 44"
    using bounds(3) t M(2) by simp
  then have us: "unat (timeoutMclksToMicroseconds d mpa) = u"
    unfolding u_def M_def by (rule timeoutMclksToMicroseconds_unat)
  have ub: "u < 2 ^ 21"
    using bounds(1) t M(2) by simp
  have "budget' - g = 2 * timeoutMclksToMicroseconds d mpa"
    unfolding b by simp
  moreover have "unat (2 * timeoutMclksToMicroseconds d mpa) = 2 * u"
    using ub by (simp add: unat_word_ariths us)
  ultimately have A: "unat (budget' - g) = 2 * u"
    by simp
  have da: "2 * (t div 128) \<le> T div 128" "2 * (M div 4096) \<le> M div 2048"
    "2 * t \<le> T" "T \<le> 2 * t + 1"
    unfolding tT by simp_all
  show r1: "unat (budget' - g) \<le> unat (budget_us - g) + unat mpa div 2048 + 2"
    unfolding A T_def [symmetric] M_def [symmetric] using bounds(1) da by linarith
  show r2: "unat (budget_us - g) \<le> unat (budget' - g) + unat (budget_us - g) div 128
                                    + unat mpa div 2048 + 7"
    unfolding A T_def [symmetric] M_def [symmetric] using bounds(2) da by linarith
  have before: "unat budget_us = unat g + T"
  proof -
    have "g \<le> budget_us"
      using range(1) by simp
    then have "unat (budget_us - g) = unat budget_us - unat g"
      by (rule unat_sub)
    moreover have "unat g \<le> unat budget_us"
      using \<open>g \<le> budget_us\<close> by (simp add: word_le_nat_alt)
    ultimately show ?thesis
      unfolding T_def by linarith
  qed
  have after: "unat budget' = unat g + 2 * u" if "unat g < 2 ^ 31"
  proof -
    have "unat (2 * timeoutMclksToMicroseconds d mpa) + unat g < 2 ^ LENGTH(32)"
      using that ub \<open>unat (2 * timeoutMclksToMicroseconds d mpa) = 2 * u\<close> by simp
    then have "unat (2 * timeoutMclksToMicroseconds d mpa + g)
        = unat (2 * timeoutMclksToMicroseconds d mpa) + unat g"
      by (simp only: unat_add_lem)
    then show ?thesis
      unfolding b using \<open>unat (2 * timeoutMclksToMicroseconds d mpa) = 2 * u\<close> by simp
  qed
  show "unat budget' \<le> unat budget_us + unat mpa div 2048 + 2" if "unat g < 2 ^ 31"
    using r1 unfolding A T_def [symmetric] before after [OF that] by linarith
  show "unat budget_us \<le> unat budget' + unat (budget_us - g) div 128 + unat mpa div 2048 + 7"
    if "unat g < 2 ^ 31"
    using r2 unfolding A T_def [symmetric] before after [OF that] by linarith
qed

lemma setDistanceMode_budget_bounds:
  assumes mode: "mode \<noteq> Unknown"
    and before: "getMeasurementTimingBudget h s = Inr (budget_us, s1)"
    and range: "TimingGuard h < budget_us" "budget_us - TimingGuard h \<le> 1100000"
    and a: "calcMacroPeriod (vcsel_period_a mode) s = Inr mpa" "mpa \<noteq> 0"
    and b: "calcMacroPeriod (vcsel_period_b mode) s = Inr mpb" "mpb \<noteq> 0"
  shows "\<exists>s2 mclks d budget' s3.
           setDistanceMode h mode s = Inr (True, s2) \<and> distance_mode s2 = mode
           \<and> timeoutMicrosecondsToMclks ((budget_us - TimingGuard h) div 2) mpa = Inr mclks
           \<and> decodeTimeout (encodeTimeout mclks) = Inr d
           \<and> budget' = 2 * timeoutMclksToMicroseconds d mpa + TimingGuard h
           \<and> getMeasurementTimingBudget h s2 = Inr (budget', s3)
           \<and> unat (budget' - TimingGuard h)
               \<le> unat (budget_us - TimingGuard h) + unat mpa div 2048 + 2
           \<and> unat (budget_us - TimingGuard h)
               \<le> unat (budget' - TimingGuard h) + unat (budget_us - TimingGuard h) div 128
                   + unat mpa div 2048 + 7
           \<and> (unat (TimingGuard h) < 2 ^ 31 \<longrightarrow>
                 unat budget' \<le> unat budget_us + unat mpa div 2048 + 2
                 \<and> unat budget_us
                     \<le> unat budget' + unat (budget_us - TimingGuard h) div 128
                         + unat mpa div 2048 + 7)"
proof -
  obtain s2 mclks d s3 where res: "setDistanceMode h mode s = Inr (True, s2)" "distance_mode s2 = mode"
    and mclks: "timeoutMicrosecondsToMclks ((budget_us - TimingGuard h) div 2) mpa = Inr mclks"
    and d: "decodeTimeout (encodeTimeout mclks) = Inr d"
    and after: "getMeasurementTimingBudget h s2
               = Inr (2 * timeoutMclksToMicroseconds d mpa + TimingGuard h, s3)"
    using setDistanceMode_budget [OF assms] by blast
  define budget' where "budget' = 2 * timeoutMclksToMicroseconds d mpa + TimingGuard h"
  have m: "unat mpa < 2 ^ 26"
    using a(1) by (rule calcMacroPeriod_bound)
  note bounds = reapplied_budget_bounds [OF range m a(2) mclks d budget'_def]
  have "getMeasurementTimingBudget h s2 = Inr (budget', s3)"
    using after by (simp only: budget'_def)
  with res mclks d budget'_def bounds show ?thesis
    by blast
qed

text \<open>
  C6 (as amended). For every recognized distance mode, \<^verbatim>\<open>setDistanceMode\<close>
  re-applies the timing budget that \<^verbatim>\<open>getMeasurementTimingBudget\<close> returned
  before the mode change: when that budget lies in the range that
  \<^verbatim>\<open>setMeasurementTimingBudget\<close> accepts and the macro periods of the new mode
  are nonzero, it returns true, records the mode, and the budget read back afterwards is
  the saved budget after conversion to macro periods of the new mode, encoding, decoding
  and conversion back. That value need not equal the saved budget. Counted from the
  timing guard, it exceeds the saved budget by at most two macro periods of the new mode
  and 2 microseconds, and falls short of it by at most a 128th of the saved budget, two
  macro periods and 7 microseconds; the same bounds hold for the budgets themselves when
  the timing guard is below \<open>2 ^ 31\<close>. The macro period is held in units of
  \<open>1 / 4096\<close> microsecond, so two macro periods are \<open>mpa div 2048\<close>
  microseconds.
\<close>

theorem setDistanceMode_reapplies_budget:
  "mode \<noteq> Unknown \<Longrightarrow>
   getMeasurementTimingBudget h s = Inr (budget_us, s1) \<Longrightarrow>
   TimingGuard h < budget_us \<Longrightarrow> budget_us - TimingGuard h \<le> 1100000 \<Longrightarrow>
   calcMacroPeriod (vcsel_period_a mode) s = Inr mpa \<Longrightarrow> mpa \<noteq> 0 \<Longrightarrow>
   calcMacroPeriod (vcsel_period_b mode) s = Inr mpb \<Longrightarrow> mpb \<noteq> 0 \<Longrightarrow>
   \<exists>s2 mclks d budget' s3.
     setDistanceMode h mode s = Inr (True, s2) \<and> distance_mode s2 = mode
     \<and> timeoutMicrosecondsToMclks ((budget_us - TimingGuard h) div 2) mpa = Inr mclks
     \<and> decodeTimeout (encodeTimeout mclks) = Inr d
     \<and> budget' = 2 * timeoutMclksToMicroseconds d mpa + TimingGuard h
     \<and> getMeasurementTimingBudget h s2 = Inr (budget', s3)
     \<and> unat (budget' - TimingGuard h)
         \<le> unat (budget_us - TimingGuard h) + unat mpa div 2048 + 2
     \<and> unat (budget_us - TimingGuard h)
         \<le> unat (budget' - TimingGuard h) + unat (budget_us - TimingGuard h) div 128
             + unat mpa div 2048 + 7
     \<and> (unat (TimingGuard h) < 2 ^ 31 \<longrightarrow>
           unat budget' \<le> unat budget_us + unat mpa div 2048 + 2
           \<and> unat budget_us
               \<le> unat budget' + unat (budget_us - TimingGuard h) div 128
                   + unat mpa div 2048 + 7)"
  by (rule setDistanceMode_budget_bounds)

theorem setDistanceMode_short_witness:
  "\<exists>s2 s3. setDistanceMode header0 Short long_range_sensor = Inr (True, s2)
      \<and> distance_mode s2 = Short
      \<and> getMeasurementTimingBudget header0 s2 = Inr (49924, s3)"
proof -
  obtain s1 where before: "getMeasurementTimingBudget header0 long_range_sensor = Inr (50022, s1)"
    using long_range_budget by blast
  have "Short \<noteq> Unknown" "TimingGuard header0 < 50022" "50022 - TimingGuard header0 \<le> 1100000"
    "calcMacroPeriod (vcsel_period_a Short) long_range_sensor = Inr 199935" "(199935 :: uint32_t) \<noteq> 0"
    "calcMacroPeriod (vcsel_period_b Short) long_range_sensor = Inr 149951" "(149951 :: uint32_t) \<noteq> 0"
    by (simp_all add: header0_def vcsel_period_a_def vcsel_period_b_def long_range_macro_period)
  from setDistanceMode_reapplies_budget [OF this(1) before this(2-7)]
  obtain s2 mclks d budget' s3
    where "setDistanceMode header0 Short long_range_sensor = Inr (True, s2)"
      and "distance_mode s2 = Short"
      and "timeoutMicrosecondsToMclks ((50022 - TimingGuard header0) div 2) 199935 = Inr mclks"
      and "decodeTimeout (encodeTimeout mclks) = Inr d"
      and "budget' = 2 * timeoutMclksToMicroseconds d 199935 + TimingGuard header0"
      and "getMeasurementTimingBudget header0 s2 = Inr (budget', s3)"
    by blast
  then show ?thesis
    by (auto simp add: short_mode_round_trip)
qed

text \<open>
  In long mode with a budget of 50022 microseconds, the change to short mode leaves a
  budget of 49924 microseconds.
\<close>

theorem setDistanceMode_budget_counterexample:
  "budget_before header0 long_range_sensor = Inr 50022
   \<and> budget_after header0 Short long_range_sensor = Inr 49924"
proof -
  obtain s1 where before: "getMeasurementTimingBudget header0 long_range_sensor = Inr (50022, s1)"
    using long_range_budget by blast
  have "Short \<noteq> Unknown" "TimingGuard header0 < 50022" "50022 - TimingGuard header0 \<le> 1100000"
    "calcMacroPeriod (vcsel_period_a Short) long_range_sensor = Inr 199935" "(199935 :: uint32_t) \<noteq> 0"
    "calcMacroPeriod (vcsel_period_b Short) long_range_sensor = Inr 149951" "(149951 :: uint32_t) \<noteq> 0"
    by (simp_all add: header0_def vcsel_period_a_def vcsel_period_b_def long_range_macro_period)
  from setDistanceMode_budget [OF this(1) before this(2-7)]
  have "budget_after header0 Short long_range_sensor = Inr 49924"
    by (auto simp add: short_mode_round_trip budget_after_def)
  with before show ?thesis
    by (simp add: budget_before_def)
qed


section \<open>Initialization\<close>

lemma init_poll_booted:
  assumes "dev_mem (bus s) (FIRMWARE__SYSTEM_STATUS, 0) AND 0x01 \<noteq> 0" "dev_ack (bus s) = 0"
  shows "init_poll s = Some (True, snd (readReg FIRMWARE__SYSTEM_STATUS s))"
  using assms by (subst init_poll.simps) (simp add: readReg_eq)

lemma software_reset_bus:
  "dev_ack (bus (software_reset s)) = dev_ack (bus s)"
  "r \<noteq> SOFT_RESET \<Longrightarrow> dev_mem (bus (software_reset s)) (r, i) = dev_mem (bus s) (r, i)"
  by (simp_all add: software_reset_def Let_def startTimeout_def millis_def delay_def
      delayMicroseconds_def writeReg_def transmit_def split_beta)

lemma readReg16Bit_bus [simp]:
  "dev_mem (bus (snd (readReg16Bit reg s))) = dev_mem (bus s)"
  "dev_ack (bus (snd (readReg16Bit reg s))) = dev_ack (bus s)"
  "fast_osc_frequency (snd (readReg16Bit reg s)) = fast_osc_frequency s"
  by (simp_all add: readReg16Bit_eq)

lemma data_init_state:
  "fast_osc_frequency (data_init io_2v8 s)
     = be16 (dev_mem (bus s) (OSC_MEASURED__FAST_OSC__FREQUENCY, 0))
            (dev_mem (bus s) (OSC_MEASURED__FAST_OSC__FREQUENCY, 1))"
  "r \<noteq> PAD_I2C_HV__EXTSUP_CONFIG \<Longrightarrow>
     dev_mem (bus (data_init io_2v8 s)) (r, i) = dev_mem (bus s) (r, i)"
  by (simp_all add: data_init_def Let_def split_beta)

lemma static_init_state:
  "fast_osc_frequency (static_init h s) = fast_osc_frequency s"
  "dev_mem (bus (static_init h s)) (RANGE_CONFIG__VCSEL_PERIOD_A, i)
     = dev_mem (bus s) (RANGE_CONFIG__VCSEL_PERIOD_A, i)"
  "dev_mem (bus (static_init h s)) (RANGE_CONFIG__TIMEOUT_MACROP_A, i)
     = dev_mem (bus s) (RANGE_CONFIG__TIMEOUT_MACROP_A, i)"
  by (simp_all add: static_init_def Let_def)

lemma setMeasurementTimingBudget_keeps:
  assumes "setMeasurementTimingBudget h budget_us s = Inr (r, s')"
  shows "fast_osc_frequency s' = fast_osc_frequency s"
    and "dev_mem (bus s') (RANGE_CONFIG__VCSEL_PERIOD_A, 0)
           = dev_mem (bus s) (RANGE_CONFIG__VCSEL_PERIOD_A, 0)"
    and "dev_mem (bus s') (RANGE_CONFIG__VCSEL_PERIOD_B, 0)
           = dev_mem (bus s) (RANGE_CONFIG__VCSEL_PERIOD_B, 0)"
  using assms
  by (auto simp add: setMeasurementTimingBudget_def Let_def split_beta
      split: if_splits sum.splits)

lemma setMeasurementTimingBudget_total:
  assumes "macro_periods_nonzero s"
  shows "\<exists>r s'. setMeasurementTimingBudget h budget_us s = Inr (r, s')"
proof (cases "budget_us \<le> TimingGuard h \<or> 1100000 < budget_us - TimingGuard h")
  case True
  then show ?thesis
    using setMeasurementTimingBudget_reject by blast
next
  case False
  then show ?thesis
    using setMeasurementTimingBudget_accept [OF _ _ assms] by blast
qed

lemma macro_periods_nonzeroI:
  assumes "calcMacroPeriod (dev_mem (bus s) (RANGE_CONFIG__VCSEL_PERIOD_A, 0)) s = Inr mpa" "mpa \<noteq> 0"
    and "calcMacroPeriod (dev_mem (bus s) (RANGE_CONFIG__VCSEL_PERIOD_B, 0)) s = Inr mpb" "mpb \<noteq> 0"
  shows "macro_periods_nonzero s"
  using assms by (simp add: macro_periods_nonzero_def)

lemma setDistanceMode_total:
  assumes mode: "mode \<noteq> Unknown"
    and before: "getMeasurementTimingBudget h s = Inr (budget_us, s1)"
    and a: "calcMacroPeriod (vcsel_period_a mode) s = Inr mpa" "mpa \<noteq> 0"
    and b: "calcMacroPeriod (vcsel_period_b mode) s = Inr mpb" "mpb \<noteq> 0"
  shows "\<exists>s'. setDistanceMode h mode s = Inr (True, s')
           \<and> fast_osc_frequency s' = fast_osc_frequency s
           \<and> dev_mem (bus s') (RANGE_CONFIG__VCSEL_PERIOD_A, 0) = vcsel_period_a mode
           \<and> dev_mem (bus s') (RANGE_CONFIG__VCSEL_PERIOD_B, 0) = vcsel_period_b mode"
proof -
  have f1: "fast_osc_frequency s1 = fast_osc_frequency s"
    using before by (rule getMeasurementTimingBudget_state)
  obtain sm where sm: "distance_mode_registers mode s1 = Some sm"
    and va: "dev_mem (bus sm) (RANGE_CONFIG__VCSEL_PERIOD_A, 0) = vcsel_period_a mode"
    and vb: "dev_mem (bus sm) (RANGE_CONFIG__VCSEL_PERIOD_B, 0) = vcsel_period_b mode"
    and fm: "fast_osc_frequency sm = fast_osc_frequency s1"
    using distance_mode_registers_Some [OF mode, of s1] by blast
  have fs: "fast_osc_frequency sm = fast_osc_frequency s"
    using fm f1 by simp
  have "calcMacroPeriod (dev_mem (bus sm) (RANGE_CONFIG__VCSEL_PERIOD_A, 0)) sm = Inr mpa"
    unfolding va using a(1) calcMacroPeriod_frequency [OF fs] by simp
  moreover have "calcMacroPeriod (dev_mem (bus sm) (RANGE_CONFIG__VCSEL_PERIOD_B, 0)) sm = Inr mpb"
    unfolding vb using b(1) calcMacroPeriod_frequency [OF fs] by simp
  ultimately have "macro_periods_nonzero sm"
    using a(2) b(2) by (intro macro_periods_nonzeroI)
  then obtain r s' where set: "setMeasurementTimingBudget h budget_us sm = Inr (r, s')"
    using setMeasurementTimingBudget_total by blast
  have "setDistanceMode h mode s = Inr (True, s'\<lparr>distance_mode := mode\<rparr>)"
    by (simp add: setDistanceMode_def before sm set)
  then show ?thesis
    using setMeasurementTimingBudget_keeps [OF set] fs va vb by simp
qed

text \<open>
  On the booted device, \<^verbatim>\<open>init\<close> runs to its end and returns 0.
\<close>

lemma init_booted:
  "\<exists>s'. init header0 True booted_sensor = Some (Inr (0, s'))"
proof -
  define s0 where "s0 = snd (readReg16Bit IDENTIFICATION__MODEL_ID booted_sensor)"
  define s1 where "s1 = snd (readReg FIRMWARE__SYSTEM_STATUS (software_reset s0))"
  define s2 where "s2 = static_init header0 (data_init True s1)"
  have mem0: "dev_mem (bus s0) = dev_mem (bus booted_sensor)" "dev_ack (bus s0) = 0"
    by (simp_all add: s0_def booted_sensor_def simulated_sensor_def VL53L1X_new_def)
  have id: "be16 (dev_mem (bus booted_sensor) (IDENTIFICATION__MODEL_ID, 0))
                 (dev_mem (bus booted_sensor) (IDENTIFICATION__MODEL_ID, Suc 0)) = 0xEACC"
    by (simp add: booted_sensor_def simulated_sensor_def VL53L1X_new_def device_memory_def
        be16_def)
  have "dev_mem (bus (software_reset s0)) (FIRMWARE__SYSTEM_STATUS, 0) AND 0x01 \<noteq> 0"
    by (simp add: software_reset_bus mem0 booted_sensor_def simulated_sensor_def
        VL53L1X_new_def device_memory_def)
  moreover have "dev_ack (bus (software_reset s0)) = 0"
    by (simp add: software_reset_bus mem0)
  ultimately have poll: "init_poll (software_reset s0) = Some (True, s1)"
    unfolding s1_def by (rule init_poll_booted)
  have mem1: "r \<noteq> SOFT_RESET \<Longrightarrow> dev_mem (bus s1) (r, i) = dev_mem (bus booted_sensor) (r, i)" for r i
    by (simp add: s1_def software_reset_bus mem0)
  have f2: "fast_osc_frequency s2 = 0xBCCC"
    by (simp add: s2_def static_init_state data_init_state mem1 booted_sensor_def
        simulated_sensor_def VL53L1X_new_def device_memory_def be16_def)
  have mem2: "dev_mem (bus s2) (RANGE_CONFIG__VCSEL_PERIOD_A, 0) = 0"
    "dev_mem (bus s2) (RANGE_CONFIG__TIMEOUT_MACROP_A, 0) = 0"
    "dev_mem (bus s2) (RANGE_CONFIG__TIMEOUT_MACROP_A, 1) = 0"
    "dev_mem (bus s2) (RANGE_CONFIG__TIMEOUT_MACROP_A, Suc 0) = 0"
    by (simp_all add: s2_def static_init_state data_init_state mem1 booted_sensor_def
        simulated_sensor_def VL53L1X_new_def device_memory_def)
  have "calcMacroPeriod (dev_mem (bus s2) (RANGE_CONFIG__VCSEL_PERIOD_A, 0)) s2 = Inr 24991"
    by (simp add: mem2 calcMacroPeriod_def checked_div_def f2)
  moreover have "decodeTimeout (be16 (dev_mem (bus s2) (RANGE_CONFIG__TIMEOUT_MACROP_A, 0))
      (dev_mem (bus s2) (RANGE_CONFIG__TIMEOUT_MACROP_A, 1))) = Inr 1"
    by (simp add: mem2 be16_def decodeTimeout_def)
  ultimately obtain b sb where before: "getMeasurementTimingBudget header0 s2 = Inr (b, sb)"
    using getMeasurementTimingBudget_value by blast
  have "Long \<noteq> Unknown"
    "calcMacroPeriod (vcsel_period_a Long) s2 = Inr 399870" "(399870 :: uint32_t) \<noteq> 0"
    "calcMacroPeriod (vcsel_period_b Long) s2 = Inr 349886" "(349886 :: uint32_t) \<noteq> 0"
    by (simp_all add: vcsel_period_a_def vcsel_period_b_def calcMacroPeriod_def checked_div_def f2)
  from setDistanceMode_total [OF this(1) before this(2-5)]
  obtain s3 where mode: "setDistanceMode header0 Long s2 = Inr (True, s3)"
    and f3: "fast_osc_frequency s3 = fast_osc_frequency s2"
    and va: "dev_mem (bus s3) (RANGE_CONFIG__VCSEL_PERIOD_A, 0) = vcsel_period_a Long"
    and vb: "dev_mem (bus s3) (RANGE_CONFIG__VCSEL_PERIOD_B, 0) = vcsel_period_b Long"
    by blast
  have "macro_periods_nonzero s3"
    by (simp add: macro_periods_nonzero_def va vb vcsel_period_a_def vcsel_period_b_def
        calcMacroPeriod_def checked_div_def f3 f2)
  then obtain r s4 where budget: "setMeasurementTimingBudget header0 50000 s3 = Inr (r, s4)"
    using setMeasurementTimingBudget_total by blast
  show ?thesis
    by (simp add: init_def Let_def split_beta id s0_def [symmetric] poll
        s2_def [symmetric] mode budget)
qed

lemma init_model_id:
  assumes "be16 (dev_mem (bus s) (IDENTIFICATION__MODEL_ID, 0))
                (dev_mem (bus s) (IDENTIFICATION__MODEL_ID, 1)) \<noteq> 0xEACC"
  shows "init h io_2v8 s
     = Some (Inr (uint (be16 (dev_mem (bus s) (IDENTIFICATION__MODEL_ID, 0))
                             (dev_mem (bus s) (IDENTIFICATION__MODEL_ID, 1))),
                  snd (readReg16Bit IDENTIFICATION__MODEL_ID s)))"
  using assms by (simp add: init_def Let_def split_beta)

text \<open>
  C3. \<^verbatim>\<open>init\<close> returns the model ID it read whenever that differs from
  0xEACC, after the one read and before any write. A model ID of 0 is therefore returned
  as 0, the value that also stands for success.
\<close>

theorem init_returns_model_id:
  "be16 (dev_mem (bus s) (IDENTIFICATION__MODEL_ID, 0))
        (dev_mem (bus s) (IDENTIFICATION__MODEL_ID, 1)) \<noteq> 0xEACC \<Longrightarrow>
   init h io_2v8 s
     = Some (Inr (uint (be16 (dev_mem (bus s) (IDENTIFICATION__MODEL_ID, 0))
                             (dev_mem (bus s) (IDENTIFICATION__MODEL_ID, 1))),
                  snd (readReg16Bit IDENTIFICATION__MODEL_ID s)))
   \<and> bus_trace (bus (snd (readReg16Bit IDENTIFICATION__MODEL_ID s)))
       = bus_trace (bus s)
         @ [Transmit (address s) IDENTIFICATION__MODEL_ID [], Request (address s) 2]"
  by (simp add: init_model_id readReg16Bit_eq)

theorem init_model_id_zero_witness:
  "init header0 True (simulated_sensor [])
     = Some (Inr (0, snd (readReg16Bit IDENTIFICATION__MODEL_ID (simulated_sensor []))))
   \<and> bus_trace (bus (snd (readReg16Bit IDENTIFICATION__MODEL_ID (simulated_sensor []))))
       = [Transmit 0x29 IDENTIFICATION__MODEL_ID [], Request 0x29 2]"
  using init_returns_model_id [of "simulated_sensor []" header0 True]
  by (simp add: be16_def simulated_sensor_def VL53L1X_new_def device_memory_def header0_def)


end
